theory Spec2Isabelle
  imports Complex_Main "HOL-Library.Log_Nat"
begin

section \<open>JavaScript values\<close>

text \<open>
  An optional string field or argument of the TypeScript source (\<open>x?: string\<close>) is a
  \<open>string option\<close>: \<open>None\<close> is \<open>undefined\<close>. The source tests such values by their
  truthiness (\<open>if (x)\<close>, \<open>x || y\<close>, \<open>x ? a : b\<close>): a string is truthy when it is
  defined and not the empty string.
\<close>

definition truthy :: "string option \<Rightarrow> bool" where
  "truthy x = (case x of None \<Rightarrow> False | Some s \<Rightarrow> s \<noteq> [])"

text \<open>
  Modelled from the spec: \<open>StringUtils.isEmpty\<close> lives in \<open>utils/StringUtils\<close>, which is not
  among the sources. The spec calls its uses "string-emptiness checks" on "optional/nullable
  response fields": a value is empty when it is undefined or the empty string.
\<close>

definition isEmpty :: "string option \<Rightarrow> bool" where
  "isEmpty x = (case x of None \<Rightarrow> True | Some s \<Rightarrow> s = [])"

text \<open>String conversion inside a template literal: \<open>undefined\<close> prints as its name.\<close>

definition toStringJS :: "string option \<Rightarrow> string" where
  "toStringJS x = (case x of None \<Rightarrow> ''undefined'' | Some s \<Rightarrow> s)"

text \<open>\<open>Array.prototype.join\<close>, which a template literal applies to an array with \<open>,\<close>.\<close>

fun join :: "string \<Rightarrow> string list \<Rightarrow> string" where
  "join sep [] = []"
| "join sep [x] = x"
| "join sep (x # y # ys) = x @ sep @ join sep (y # ys)"

definition arrayToStringJS :: "string list option \<Rightarrow> string" where
  "arrayToStringJS x = (case x of None \<Rightarrow> ''undefined'' | Some xs \<Rightarrow> join '','' xs)"

subsection \<open>Numbers\<close>

text \<open>
  A JavaScript number is an IEEE 754 double: a finite value, \<open>NaN\<close> or an infinity. A finite
  double is held as the rational it denotes (an integer, or a fraction such as \<open>1 / 2\<close>);
  the two zeros are one value, which no function of the two source files tells apart.
  The source declares its numeric fields (\<open>expires_in\<close>, \<open>ext_expires_in\<close>, the
  timestamp of the library state) as \<open>number\<close>: a field holds a number or is undefined.
\<close>

datatype number = Num rat | NaN | PosInfinity | NegInfinity

text \<open>\<open>pow2 k\<close> is two to the power \<open>k\<close>, for a negative \<open>k\<close> as well.\<close>

definition pow2 :: "int \<Rightarrow> rat" where
  "pow2 k = (if 0 \<le> k then 2 ^ nat k else 1 / 2 ^ nat (- k))"

text \<open>
  The binary exponent of a rational \<open>x \<noteq> 0\<close>: the \<open>e\<close> with \<open>2^e \<le> |x| < 2^(e+1)\<close>, found
  from the bit lengths of numerator and denominator.
\<close>

definition exponentOf :: "rat \<Rightarrow> int" where
  "exponentOf x =
     (let p = fst (quotient_of \<bar>x\<bar>); q = snd (quotient_of \<bar>x\<bar>); k = bitlen p - bitlen q
      in if pow2 k \<le> \<bar>x\<bar> then k else k - 1)"

text \<open>Rounding to the nearest integer, a tie going to the even one.\<close>

definition roundHalfEven :: "rat \<Rightarrow> int" where
  "roundHalfEven q =
     (let f = \<lfloor>q\<rfloor>; d = q - of_int f
      in if d < 1 / 2 then f else if 1 / 2 < d then f + 1 else if even f then f else f + 1)"

text \<open>
  The double an exact result is rounded to (round to nearest, ties to even): a significand of
  53 bits, so that doubles with binary exponent \<open>e\<close> are \<open>2^(e-52)\<close> apart; the least normal
  exponent is \<open>-1022\<close>, below which the spacing stays \<open>2^(-1074)\<close>; a result that rounds to
  \<open>2^1024\<close> or beyond is an infinity.
\<close>

definition roundToDouble :: "rat \<Rightarrow> number" where
  "roundToDouble x =
     (if x = 0 then Num 0
      else (let e = max (exponentOf x) (- 1022);
                ulp = pow2 (e - 52);
                y = of_int (roundHalfEven (x / ulp)) * ulp
            in if pow2 1024 \<le> \<bar>y\<bar> then (if 0 < x then PosInfinity else NegInfinity) else Num y))"

text \<open>The operator \<open>+\<close> on two numbers.\<close>

fun addJS :: "number \<Rightarrow> number \<Rightarrow> number" where
  "addJS (Num x) (Num y) = roundToDouble (x + y)"
| "addJS NaN b = NaN"
| "addJS a NaN = NaN"
| "addJS PosInfinity NegInfinity = NaN"
| "addJS NegInfinity PosInfinity = NaN"
| "addJS PosInfinity b = PosInfinity"
| "addJS NegInfinity b = NegInfinity"
| "addJS a PosInfinity = PosInfinity"
| "addJS a NegInfinity = NegInfinity"

text \<open>The operator \<open>*\<close> on two numbers: an infinity times zero is \<open>NaN\<close>.\<close>

definition signedInfinity :: "bool \<Rightarrow> number" where
  "signedInfinity positive = (if positive then PosInfinity else NegInfinity)"

fun mulJS :: "number \<Rightarrow> number \<Rightarrow> number" where
  "mulJS (Num x) (Num y) = roundToDouble (x * y)"
| "mulJS NaN b = NaN"
| "mulJS a NaN = NaN"
| "mulJS PosInfinity (Num y) = (if y = 0 then NaN else signedInfinity (0 < y))"
| "mulJS NegInfinity (Num y) = (if y = 0 then NaN else signedInfinity (y < 0))"
| "mulJS (Num x) PosInfinity = (if x = 0 then NaN else signedInfinity (0 < x))"
| "mulJS (Num x) NegInfinity = (if x = 0 then NaN else signedInfinity (x < 0))"
| "mulJS PosInfinity PosInfinity = PosInfinity"
| "mulJS PosInfinity NegInfinity = NegInfinity"
| "mulJS NegInfinity PosInfinity = NegInfinity"
| "mulJS NegInfinity NegInfinity = PosInfinity"

text \<open>
  An optional number field (\<open>x?: number\<close>) is a \<open>number option\<close>; as an operand of \<open>+\<close> the
  value \<open>undefined\<close> converts to \<open>NaN\<close>.
\<close>

definition toNumber :: "number option \<Rightarrow> number" where
  "toNumber x = (case x of None \<Rightarrow> NaN | Some n \<Rightarrow> n)"

section \<open>Errors\<close>

text \<open>
  Every \<open>throw\<close> of the two source files is a constructor of \<open>error\<close>. An error raised
  inside a collaborator whose code is elsewhere (crypto, cache store, persistence plugin,
  network, scope sets, the built-in \<open>decodeURIComponent\<close>) is \<open>Thrown c m\<close>: \<open>c\<close> names the
  collaborator that raised it and \<open>m\<close> is what it reported. \<open>TypeError\<close> is the runtime's
  error for reading a property of \<open>null\<close>.
\<close>

datatype collaborator =
    DecodeURIComponent | BuildClientInfo | NewAuthToken | ParseRequestState
  | NewScopeSet | CreateAccount | GetAccount | SaveCacheRecord
  | BeforeCacheAccess | AfterCacheAccess | SignPopToken | SendPostRequest

datatype error =
    StateMismatchError
  | NonceMismatchError
  | InvalidCacheEnvironmentError
  | ClientInfoEmptyError "string option"
  | InteractionRequiredAuthError "string option" "string option" "string option"
  | ServerError "string option" "string option" "string option"
  | TypeError
  | Thrown collaborator string

definition throwsFrom :: "collaborator \<Rightarrow> string + 'a \<Rightarrow> error + 'a" where
  "throwsFrom c r = (case r of Inl m \<Rightarrow> Inl (Thrown c m) | Inr v \<Rightarrow> Inr v)"

section \<open>Wire payloads and decoded values\<close>

record ServerAuthorizationCodeResponse =
  hash_state :: "string option"
  hash_client_info :: "string option"
  hash_error :: "string option"
  hash_error_description :: "string option"
  hash_suberror :: "string option"

record ServerAuthorizationTokenResponse =
  access_token :: "string option"
  id_token :: "string option"
  refresh_token :: "string option"
  client_info :: "string option"
  token_type :: "string option"
  scope :: "string option"
  expires_in :: "number option"
  ext_expires_in :: "number option"
  foci :: "string option"
  error :: "string option"
  error_description :: "string option"
  error_codes :: "string list option"
  suberror :: "string option"
  timestamp :: "string option"
  correlation_id :: "string option"
  trace_id :: "string option"

record ClientInfo =
  uid :: "string option"
  utid :: "string option"

record TokenClaims =
  sub :: "string option"
  oid :: "string option"
  tid :: "string option"
  nonce :: "string option"

record AuthToken =
  rawToken :: string
  claims :: TokenClaims

record LibraryStateObject =
  ts :: "number option"

record RequestStateObject =
  userRequestState :: string
  libraryState :: "LibraryStateObject option"

datatype AuthorityType = Default | Adfs

record Authority =
  canonicalAuthority :: string
  authorityType :: AuthorityType
  protocolMode :: string
  tenant :: string

section \<open>Collaborators\<close>

text \<open>
  Modelled from the spec: \<open>AccountEntity\<close> and the \<open>AccountInfo\<close> it projects to are
  declared outside the sources. By section 3 of the spec an account entity is "keyed by
  home-account-id, environment, realm"; these three fields are all the model gives it.
\<close>

record AccountEntity =
  homeAccountId :: string
  environment :: string
  realm :: string

record AccountInfo =
  info_homeAccountId :: string
  info_environment :: string
  info_tenantId :: string

text \<open>
  The functions the two source files call and do not define, taken as parameters. A
  collaborator that can throw returns \<open>Inl m\<close> for the error it reports.
  \<open>nowSeconds\<close> is what the clock returns when \<open>TimeUtils.nowSeconds()\<close> is called.
  A scope set is held as the list of its scopes; how a string or an array is read into one
  (\<open>ScopeSet.fromString\<close>, \<open>new ScopeSet\<close>), and how it is printed and listed, is the
  collaborator's. \<open>POP\<close> is the constant \<open>AuthenticationScheme.POP\<close>.
\<close>

record deps =
  decodeURIComponent :: "string \<Rightarrow> string + string"
  isInteractionRequiredError :: "string option \<Rightarrow> string option \<Rightarrow> string option \<Rightarrow> bool"
  buildClientInfo :: "string \<Rightarrow> string + ClientInfo"
  newAuthToken :: "string \<Rightarrow> string + AuthToken"
  parseRequestState :: "string \<Rightarrow> string + RequestStateObject"
  generateEnvironmentFromAuthority :: "Authority \<Rightarrow> string"
  nowSeconds :: number
  ScopeSet_fromString :: "string \<Rightarrow> string + string list"
  ScopeSet_new :: "string list \<Rightarrow> string + string list"
  printScopes :: "string list \<Rightarrow> string"
  asArray :: "string list \<Rightarrow> string list"
  createAccount :: "string \<Rightarrow> Authority \<Rightarrow> AuthToken \<Rightarrow> string option \<Rightarrow> string + AccountEntity"
  createGenericAccount :: "Authority \<Rightarrow> AuthToken \<Rightarrow> string option \<Rightarrow> string + AccountEntity"
  getAccountInfo :: "AccountEntity \<Rightarrow> AccountInfo"
  signPopToken :: "string \<Rightarrow> string option \<Rightarrow> string option \<Rightarrow> string + string"
  POP :: string

section \<open>ResponseHandler: validation of server responses\<close>

text \<open>
  \<open>error || error_description || suberror\<close>, the test both validators start their error
  branch with.
\<close>

definition hasServerError :: "string option \<Rightarrow> string option \<Rightarrow> string option \<Rightarrow> bool" where
  "hasServerError e ed se = (truthy e \<or> truthy ed \<or> truthy se)"

text \<open>
  \<open>validateServerAuthorizationCodeResponse\<close> (lines 63-80). \<open>decodeURIComponent\<close> converts
  its argument to a string first, so an undefined state is decoded as the text
  \<open>undefined\<close>. The result of \<open>buildClientInfo\<close> is dropped: it is called to fail fast.
\<close>

definition validateServerAuthorizationCodeResponse ::
  "deps \<Rightarrow> ServerAuthorizationCodeResponse \<Rightarrow> string option \<Rightarrow> error + unit" where
  "validateServerAuthorizationCodeResponse d serverResponseHash cachedState =
     (case throwsFrom DecodeURIComponent (decodeURIComponent d (toStringJS (hash_state serverResponseHash))) of
        Inl e \<Rightarrow> Inl e
      | Inr s1 \<Rightarrow>
     (case throwsFrom DecodeURIComponent (decodeURIComponent d (toStringJS cachedState)) of
        Inl e \<Rightarrow> Inl e
      | Inr s2 \<Rightarrow>
        if s1 \<noteq> s2 then Inl StateMismatchError
        else if hasServerError (hash_error serverResponseHash)
                  (hash_error_description serverResponseHash) (hash_suberror serverResponseHash)
        then
          (if isInteractionRequiredError d (hash_error serverResponseHash)
                (hash_error_description serverResponseHash) (hash_suberror serverResponseHash)
           then Inl (InteractionRequiredAuthError (hash_error serverResponseHash)
                  (hash_error_description serverResponseHash) (hash_suberror serverResponseHash))
           else Inl (ServerError (hash_error serverResponseHash)
                  (hash_error_description serverResponseHash) (hash_suberror serverResponseHash)))
        else
          (case hash_client_info serverResponseHash of
             None \<Rightarrow> Inr ()
           | Some ci \<Rightarrow>
               if ci = [] then Inr ()
               else (case throwsFrom BuildClientInfo (buildClientInfo d ci) of
                       Inl e \<Rightarrow> Inl e
                     | Inr _ \<Rightarrow> Inr ()))))"

text \<open>The message \<open>validateTokenResponse\<close> builds for a \<open>ServerError\<close> (line 93).\<close>

definition errString :: "ServerAuthorizationTokenResponse \<Rightarrow> string" where
  "errString serverResponse =
     arrayToStringJS (error_codes serverResponse) @ '' - ['' @ toStringJS (timestamp serverResponse)
       @ '']: '' @ toStringJS (error_description serverResponse)
       @ '' - Correlation ID: '' @ toStringJS (correlation_id serverResponse)
       @ '' - Trace ID: '' @ toStringJS (trace_id serverResponse)"

text \<open>\<open>validateTokenResponse\<close> (lines 86-96).\<close>

definition validateTokenResponse :: "deps \<Rightarrow> ServerAuthorizationTokenResponse \<Rightarrow> error + unit" where
  "validateTokenResponse d serverResponse =
     (if hasServerError (error serverResponse) (error_description serverResponse) (suberror serverResponse)
      then
        (if isInteractionRequiredError d (error serverResponse) (error_description serverResponse)
              (suberror serverResponse)
         then Inl (InteractionRequiredAuthError (error serverResponse)
                (error_description serverResponse) (suberror serverResponse))
         else Inl (ServerError (error serverResponse) (Some (errString serverResponse)) None))
      else Inr ())"

text \<open>Whether an error is one the server reported (one of the two classes the validators raise for it).\<close>

fun isServerReported :: "error \<Rightarrow> bool" where
  "isServerReported (InteractionRequiredAuthError _ _ _) = True"
| "isServerReported (ServerError _ _ _) = True"
| "isServerReported _ = False"

section \<open>Cache entities\<close>

text \<open>
  Modelled from the spec: the entity classes and their \<open>create...Entity\<close> factories live in
  \<open>cache/entities\<close>, which is not among the sources. Following section 3 of the spec, a
  credential entity carries the parts of its composite key (home account id, environment,
  client id, realm, target) and its secret; an access token "additionally carries
  expiresOn/extendedExpiresOn (epoch seconds) and tokenType"; app metadata records the
  family id per client id and environment. Each factory stores the arguments the source
  passes to it. The home account id is the handler's field, which may still be undefined.
\<close>

record IdTokenEntity =
  idt_homeAccountId :: "string option"
  idt_environment :: string
  idt_secret :: string
  idt_clientId :: string
  idt_realm :: string
  idt_oboAssertion :: "string option"

definition createIdTokenEntity ::
  "string option \<Rightarrow> string \<Rightarrow> string \<Rightarrow> string \<Rightarrow> string \<Rightarrow> string option \<Rightarrow> IdTokenEntity" where
  "createIdTokenEntity hid env tok cid tenantId obo =
     \<lparr>idt_homeAccountId = hid, idt_environment = env, idt_secret = tok, idt_clientId = cid,
      idt_realm = tenantId, idt_oboAssertion = obo\<rparr>"

record AccessTokenEntity =
  at_homeAccountId :: "string option"
  at_environment :: string
  secret :: string
  at_clientId :: string
  at_realm :: string
  target :: string
  expiresOn :: number
  extendedExpiresOn :: number
  tokenType :: "string option"
  at_oboAssertion :: "string option"

definition createAccessTokenEntity ::
  "string option \<Rightarrow> string \<Rightarrow> string \<Rightarrow> string \<Rightarrow> string \<Rightarrow> string \<Rightarrow> number \<Rightarrow> number
     \<Rightarrow> string option \<Rightarrow> string option \<Rightarrow> AccessTokenEntity" where
  "createAccessTokenEntity hid env tok cid tenantId scopes expOn extExpOn tt obo =
     \<lparr>at_homeAccountId = hid, at_environment = env, secret = tok, at_clientId = cid,
      at_realm = tenantId, target = scopes, expiresOn = expOn, extendedExpiresOn = extExpOn,
      tokenType = tt, at_oboAssertion = obo\<rparr>"

record RefreshTokenEntity =
  rt_homeAccountId :: "string option"
  rt_environment :: string
  rt_secret :: string
  rt_clientId :: string
  rt_familyId :: "string option"
  rt_oboAssertion :: "string option"

definition createRefreshTokenEntity ::
  "string option \<Rightarrow> string \<Rightarrow> string \<Rightarrow> string \<Rightarrow> string option \<Rightarrow> string option \<Rightarrow> RefreshTokenEntity" where
  "createRefreshTokenEntity hid env tok cid fam obo =
     \<lparr>rt_homeAccountId = hid, rt_environment = env, rt_secret = tok, rt_clientId = cid,
      rt_familyId = fam, rt_oboAssertion = obo\<rparr>"

record AppMetadataEntity =
  am_clientId :: string
  am_environment :: string
  familyId :: "string option"

definition createAppMetadataEntity :: "string \<Rightarrow> string \<Rightarrow> string option \<Rightarrow> AppMetadataEntity" where
  "createAppMetadataEntity cid env fam = \<lparr>am_clientId = cid, am_environment = env, familyId = fam\<rparr>"

text \<open>
  Modelled from the spec: \<open>AccountEntity.generateAccountKey\<close> is not among the sources; by
  section 6 of the spec an account's key has the shape (homeAccountId, environment, realm).
\<close>

type_synonym AccountKey = "string \<times> string \<times> string"

definition generateAccountKey :: "AccountEntity \<Rightarrow> AccountKey" where
  "generateAccountKey a = (homeAccountId a, environment a, realm a)"

text \<open>\<open>new CacheRecord(account, idToken, accessToken, refreshToken, appMetadata)\<close>; \<open>None\<close> is \<open>null\<close>.\<close>

record CacheRecord =
  account :: "AccountEntity option"
  idToken :: "IdTokenEntity option"
  accessToken :: "AccessTokenEntity option"
  refreshToken :: "RefreshTokenEntity option"
  appMetadata :: "AppMetadataEntity option"

section \<open>The handler, its store and its persistence plugin\<close>

text \<open>
  The cache store's contents are a value of type \<open>'s\<close>. \<open>getAccount\<close> reads it;
  \<open>saveCacheRecord\<close> and the two plugin hooks may change it and may throw (the first
  component of their result is the error they report, if any). \<open>calls\<close> lists the calls
  made to the store and to the plugin, oldest first.
\<close>

datatype ISerializableTokenCache = TokenCache nat

record TokenCacheContext =
  cache :: ISerializableTokenCache
  hasChanged :: bool

record 's CacheManager =
  getAccount :: "'s \<Rightarrow> AccountKey \<Rightarrow> string + AccountEntity option"
  saveCacheRecord :: "CacheRecord \<Rightarrow> 's \<Rightarrow> string option \<times> 's"

record 's ICachePlugin =
  beforeCacheAccess :: "TokenCacheContext \<Rightarrow> 's \<Rightarrow> string option \<times> 's"
  afterCacheAccess :: "TokenCacheContext \<Rightarrow> 's \<Rightarrow> string option \<times> 's"

text \<open>
  The fields of the class. \<open>cryptoObj\<close> is what the collaborators of \<open>deps\<close> are bound to;
  \<open>logger\<close> only writes log lines and is left out. The constructor does not set
  \<open>clientInfo\<close> and \<open>homeAccountIdentifier\<close>: they are undefined in a new handler.
\<close>

record 's ResponseHandler =
  clientId :: string
  cacheStorage :: "'s CacheManager"
  clientInfo :: "ClientInfo option"
  homeAccountIdentifier :: "string option"
  serializableCache :: "ISerializableTokenCache option"
  persistencePlugin :: "'s ICachePlugin option"

definition newResponseHandler ::
  "string \<Rightarrow> 's CacheManager \<Rightarrow> ISerializableTokenCache option \<Rightarrow> 's ICachePlugin option \<Rightarrow> 's ResponseHandler" where
  "newResponseHandler cid cs sc pp =
     \<lparr>clientId = cid, cacheStorage = cs, clientInfo = None, homeAccountIdentifier = None,
      serializableCache = sc, persistencePlugin = pp\<rparr>"

datatype event =
    CalledBeforeCacheAccess TokenCacheContext
  | CalledGetAccount AccountKey
  | CalledSaveCacheRecord CacheRecord
  | CalledAfterCacheAccess TokenCacheContext

record 's world =
  store :: 's
  calls :: "event list"

section \<open>ResponseHandler: building the cache record\<close>

text \<open>\<open>x || ""\<close> on an optional string.\<close>

definition orEmpty :: "string option \<Rightarrow> string" where
  "orEmpty x = (case x of None \<Rightarrow> [] | Some s \<Rightarrow> s)"

text \<open>\<open>generateAccountEntity\<close> (lines 285-302).\<close>

definition generateAccountEntity ::
  "deps \<Rightarrow> ServerAuthorizationTokenResponse \<Rightarrow> AuthToken \<Rightarrow> Authority \<Rightarrow> string option
     \<Rightarrow> error + AccountEntity" where
  "generateAccountEntity d serverTokenResponse idTok authority oboAssertion =
     (if authorityType authority = Adfs
      then throwsFrom CreateAccount (createGenericAccount d authority idTok oboAssertion)
      else if isEmpty (client_info serverTokenResponse) \<and> protocolMode authority = ''AAD''
      then Inl (ClientInfoEmptyError (client_info serverTokenResponse))
      else (case client_info serverTokenResponse of
              None \<Rightarrow> throwsFrom CreateAccount (createGenericAccount d authority idTok oboAssertion)
            | Some ci \<Rightarrow>
                if ci = []
                then throwsFrom CreateAccount (createGenericAccount d authority idTok oboAssertion)
                else throwsFrom CreateAccount (createAccount d ci authority idTok oboAssertion)))"

text \<open>
  The identity-token part of \<open>generateCacheRecord\<close> (lines 207-225): both entities, or
  both \<open>null\<close>. Reading \<open>idTokenObj.claims\<close> of a \<open>null\<close> token object is a \<open>TypeError\<close>.
\<close>

definition generateCacheRecord_idToken ::
  "deps \<Rightarrow> 's ResponseHandler \<Rightarrow> ServerAuthorizationTokenResponse \<Rightarrow> AuthToken option \<Rightarrow> Authority
     \<Rightarrow> string \<Rightarrow> string option \<Rightarrow> error + (IdTokenEntity option \<times> AccountEntity option)" where
  "generateCacheRecord_idToken d h serverTokenResponse idTokenObj authority env oboAssertion =
     (case id_token serverTokenResponse of
        None \<Rightarrow> Inr (None, None)
      | Some tok \<Rightarrow>
          if tok = [] then Inr (None, None)
          else (case idTokenObj of
                  None \<Rightarrow> Inl TypeError
                | Some t \<Rightarrow>
                    (case generateAccountEntity d serverTokenResponse t authority oboAssertion of
                       Inl e \<Rightarrow> Inl e
                     | Inr acct \<Rightarrow>
                         Inr (Some (createIdTokenEntity (homeAccountIdentifier h) env tok (clientId h)
                                      (orEmpty (tid (claims t))) oboAssertion),
                              Some acct))))"

text \<open>The scopes of the access token (line 232): \<open>requestScopes || []\<close> when the response has none.\<close>

definition generateCacheRecord_scopes ::
  "deps \<Rightarrow> ServerAuthorizationTokenResponse \<Rightarrow> string list option \<Rightarrow> error + string list" where
  "generateCacheRecord_scopes d serverTokenResponse requestScopes =
     (case scope serverTokenResponse of
        None \<Rightarrow> throwsFrom NewScopeSet (ScopeSet_new d (case requestScopes of None \<Rightarrow> [] | Some xs \<Rightarrow> xs))
      | Some sc \<Rightarrow>
          if sc = []
          then throwsFrom NewScopeSet (ScopeSet_new d (case requestScopes of None \<Rightarrow> [] | Some xs \<Rightarrow> xs))
          else throwsFrom NewScopeSet (ScopeSet_fromString d sc))"

text \<open>The access-token part of \<open>generateCacheRecord\<close> (lines 228-255).\<close>

definition generateCacheRecord_accessToken ::
  "deps \<Rightarrow> 's ResponseHandler \<Rightarrow> ServerAuthorizationTokenResponse \<Rightarrow> AuthToken option \<Rightarrow> Authority
     \<Rightarrow> string \<Rightarrow> LibraryStateObject option \<Rightarrow> string list option \<Rightarrow> string option
     \<Rightarrow> error + AccessTokenEntity option" where
  "generateCacheRecord_accessToken d h serverTokenResponse idTokenObj authority env libState
       requestScopes oboAssertion =
     (case access_token serverTokenResponse of
        None \<Rightarrow> Inr None
      | Some tok \<Rightarrow>
          if tok = [] then Inr None
          else (case generateCacheRecord_scopes d serverTokenResponse requestScopes of
                  Inl e \<Rightarrow> Inl e
                | Inr rscopes \<Rightarrow>
                    (let currentTime = nowSeconds d;
                         timestamp = (case libState of None \<Rightarrow> currentTime | Some ls \<Rightarrow> toNumber (ts ls));
                         tokenExpirationSeconds = addJS timestamp (toNumber (expires_in serverTokenResponse));
                         extendedTokenExpirationSeconds =
                           addJS tokenExpirationSeconds (toNumber (ext_expires_in serverTokenResponse))
                     in Inr (Some (createAccessTokenEntity (homeAccountIdentifier h) env tok (clientId h)
                                (case idTokenObj of None \<Rightarrow> tenant authority
                                                    | Some t \<Rightarrow> orEmpty (tid (claims t)))
                                (printScopes d rscopes) tokenExpirationSeconds
                                extendedTokenExpirationSeconds (token_type serverTokenResponse)
                                oboAssertion)))))"

text \<open>\<open>generateCacheRecord\<close> (lines 198-277).\<close>

definition generateCacheRecord ::
  "deps \<Rightarrow> 's ResponseHandler \<Rightarrow> ServerAuthorizationTokenResponse \<Rightarrow> AuthToken option \<Rightarrow> Authority
     \<Rightarrow> LibraryStateObject option \<Rightarrow> string list option \<Rightarrow> string option \<Rightarrow> error + CacheRecord" where
  "generateCacheRecord d h serverTokenResponse idTokenObj authority libState requestScopes oboAssertion =
     (let env = generateEnvironmentFromAuthority d authority in
      if isEmpty (Some env) then Inl InvalidCacheEnvironmentError
      else
        (case generateCacheRecord_idToken d h serverTokenResponse idTokenObj authority env oboAssertion of
           Inl e \<Rightarrow> Inl e
         | Inr (cachedIdToken, cachedAccount) \<Rightarrow>
        (case generateCacheRecord_accessToken d h serverTokenResponse idTokenObj authority env libState
                requestScopes oboAssertion of
           Inl e \<Rightarrow> Inl e
         | Inr cachedAccessToken \<Rightarrow>
             Inr \<lparr>account = cachedAccount, idToken = cachedIdToken, accessToken = cachedAccessToken,
                  refreshToken =
                    (if isEmpty (refresh_token serverTokenResponse) then None
                     else Some (createRefreshTokenEntity (homeAccountIdentifier h) env
                            (orEmpty (refresh_token serverTokenResponse)) (clientId h)
                            (foci serverTokenResponse) oboAssertion)),
                  appMetadata =
                    (if isEmpty (foci serverTokenResponse) then None
                     else Some (createAppMetadataEntity (clientId h) env (foci serverTokenResponse)))\<rparr>)))"

section \<open>ResponseHandler: assembling the authentication result\<close>

text \<open>
  A \<open>Date\<close> is its time value in milliseconds, or the invalid date. \<open>new Date(v)\<close> clips
  its argument: a \<open>NaN\<close>, an infinity or a magnitude above \<open>8.64e15\<close> gives the invalid
  date, any other value is truncated towards zero.
\<close>

datatype Date = Date int | InvalidDate

definition timeClip :: "number \<Rightarrow> Date" where
  "timeClip v =
     (case v of
        Num x \<Rightarrow> if 8640000000000000 < \<bar>x\<bar> then InvalidDate
                 else Date (if 0 \<le> x then \<lfloor>x\<rfloor> else \<lceil>x\<rceil>)
      | _ \<Rightarrow> InvalidDate)"

text \<open>\<open>new Date(Number(seconds) * 1000)\<close> of the cached epoch seconds (lines 328-329).\<close>

definition newDate :: "number \<Rightarrow> Date" where
  "newDate seconds = timeClip (mulJS seconds (Num 1000))"

text \<open>\<open>a || b\<close> on optional strings.\<close>

definition orJS :: "string option \<Rightarrow> string option \<Rightarrow> string option" where
  "orJS a b = (if truthy a then a else b)"

record AuthenticationResult =
  uniqueId :: "string option"
  tenantId :: "string option"
  scopes :: "string list"
  result_account :: "AccountInfo option"
  result_idToken :: string
  idTokenClaims :: "TokenClaims option"
  result_accessToken :: string
  fromCache :: bool
  result_expiresOn :: "Date option"
  result_extExpiresOn :: "Date option"
  result_familyId :: "string option"
  result_tokenType :: "string option"
  state :: string

text \<open>
  The access-token part of \<open>generateAuthenticationResult\<close> (lines 315-330): the token
  handed to the caller, its scopes and the two dates.
\<close>

definition generateAuthenticationResult_accessToken ::
  "deps \<Rightarrow> CacheRecord \<Rightarrow> string option \<Rightarrow> string option
     \<Rightarrow> error + (string \<times> string list \<times> Date option \<times> Date option)" where
  "generateAuthenticationResult_accessToken d cacheRecord resourceRequestMethod resourceRequestUri =
     (case accessToken cacheRecord of
        None \<Rightarrow> Inr ([], [], None, None)
      | Some atk \<Rightarrow>
          (case (if tokenType atk = Some (POP d)
                 then throwsFrom SignPopToken
                        (signPopToken d (secret atk) resourceRequestMethod resourceRequestUri)
                 else Inr (secret atk)) of
             Inl e \<Rightarrow> Inl e
           | Inr tok \<Rightarrow>
               (case throwsFrom NewScopeSet (ScopeSet_fromString d (target atk)) of
                  Inl e \<Rightarrow> Inl e
                | Inr ss \<Rightarrow>
                    Inr (tok, asArray d ss, Some (newDate (expiresOn atk)),
                         Some (newDate (extendedExpiresOn atk))))))"

text \<open>\<open>generateAuthenticationResult\<close> (lines 314-351).\<close>

definition generateAuthenticationResult ::
  "deps \<Rightarrow> CacheRecord \<Rightarrow> AuthToken option \<Rightarrow> bool \<Rightarrow> RequestStateObject option
     \<Rightarrow> string option \<Rightarrow> string option \<Rightarrow> error + AuthenticationResult" where
  "generateAuthenticationResult d cacheRecord idTokenObj fromTokenCache requestState
       resourceRequestMethod resourceRequestUri =
     (case generateAuthenticationResult_accessToken d cacheRecord resourceRequestMethod
             resourceRequestUri of
        Inl e \<Rightarrow> Inl e
      | Inr (tok, responseScopes, expOn, extExpOn) \<Rightarrow>
          Inr \<lparr>uniqueId = (case idTokenObj of None \<Rightarrow> Some []
                             | Some t \<Rightarrow> orJS (oid (claims t)) (sub (claims t))),
               tenantId = (case idTokenObj of None \<Rightarrow> Some [] | Some t \<Rightarrow> tid (claims t)),
               scopes = responseScopes,
               result_account = (case account cacheRecord of None \<Rightarrow> None
                                 | Some a \<Rightarrow> Some (getAccountInfo d a)),
               result_idToken = (case idTokenObj of None \<Rightarrow> [] | Some t \<Rightarrow> rawToken t),
               idTokenClaims = (case idTokenObj of None \<Rightarrow> None | Some t \<Rightarrow> Some (claims t)),
               result_accessToken = tok,
               fromCache = fromTokenCache,
               result_expiresOn = expOn,
               result_extExpiresOn = extExpOn,
               result_familyId = (case appMetadata cacheRecord of None \<Rightarrow> None
                                  | Some am \<Rightarrow> orJS (familyId am) None),
               result_tokenType = (case accessToken cacheRecord of None \<Rightarrow> Some []
                                   | Some atk \<Rightarrow> tokenType atk),
               state = (case requestState of None \<Rightarrow> [] | Some rs \<Rightarrow> userRequestState rs)\<rparr>)"

section \<open>ResponseHandler: handling a token response\<close>

text \<open>
  Lines 114-123 of \<open>handleServerTokenResponse\<close>: the home account id from \<open>client_info\<close>.
  When \<open>client_info\<close> is there and \<open>uid\<close> or \<open>utid\<close> is empty, the field is not assigned
  and keeps the value it had.
\<close>

definition handleServerTokenResponse_clientInfo ::
  "deps \<Rightarrow> 's ResponseHandler \<Rightarrow> ServerAuthorizationTokenResponse \<Rightarrow> error + 's ResponseHandler" where
  "handleServerTokenResponse_clientInfo d h serverTokenResponse =
     (if truthy (client_info serverTokenResponse)
      then (case throwsFrom BuildClientInfo (buildClientInfo d (orEmpty (client_info serverTokenResponse))) of
              Inl e \<Rightarrow> Inl e
            | Inr ci \<Rightarrow>
                if \<not> isEmpty (uid ci) \<and> \<not> isEmpty (utid ci)
                then Inr (h\<lparr>clientInfo := Some ci,
                           homeAccountIdentifier := Some (orEmpty (uid ci) @ ''.'' @ orEmpty (utid ci))\<rparr>)
                else Inr (h\<lparr>clientInfo := Some ci\<rparr>))
      else Inr (h\<lparr>homeAccountIdentifier := Some []\<rparr>))"

text \<open>Lines 125-136: the token object and the nonce check.\<close>

definition handleServerTokenResponse_idToken ::
  "deps \<Rightarrow> ServerAuthorizationTokenResponse \<Rightarrow> string option \<Rightarrow> error + AuthToken option" where
  "handleServerTokenResponse_idToken d serverTokenResponse cachedNonce =
     (if \<not> isEmpty (id_token serverTokenResponse)
      then (case throwsFrom NewAuthToken (newAuthToken d (orEmpty (id_token serverTokenResponse))) of
              Inl e \<Rightarrow> Inl e
            | Inr idTokenObj \<Rightarrow>
                if \<not> isEmpty cachedNonce \<and> nonce (claims idTokenObj) \<noteq> cachedNonce
                then Inl NonceMismatchError
                else Inr (Some idTokenObj))
      else Inr None)"

text \<open>Lines 144-153: the \<open>sub\<close> claim as home account id when there is none yet.\<close>

definition handleServerTokenResponse_subClaim ::
  "'s ResponseHandler \<Rightarrow> AuthToken option \<Rightarrow> 's ResponseHandler" where
  "handleServerTokenResponse_subClaim h idTokenObj =
     (if \<not> truthy (homeAccountIdentifier h)
      then (case idTokenObj of
              None \<Rightarrow> h
            | Some t \<Rightarrow> if truthy (sub (claims t)) then h\<lparr>homeAccountIdentifier := sub (claims t)\<rparr> else h)
      else h)"

text \<open>Lines 156-159: the request state parsed from the cached state.\<close>

definition handleServerTokenResponse_requestState ::
  "deps \<Rightarrow> string option \<Rightarrow> error + RequestStateObject option" where
  "handleServerTokenResponse_requestState d cachedState =
     (if \<not> isEmpty cachedState
      then (case throwsFrom ParseRequestState (parseRequestState d (orEmpty cachedState)) of
              Inl e \<Rightarrow> Inl e
            | Inr rs \<Rightarrow> Inr (Some rs))
      else Inr None)"

text \<open>
  How a block of statements ends: it runs to its end, it executes \<open>return null\<close>, or it
  throws.
\<close>

datatype completion = Normal | Return_null | Throw error

text \<open>
  The \<open>try\<close> block (lines 164-182), in three steps. The first gives the cache context it
  created, which the \<open>finally\<close> block tests.
\<close>

definition tryBlock_before ::
  "'s ResponseHandler \<Rightarrow> 's world \<Rightarrow> completion \<times> TokenCacheContext option \<times> 's world" where
  "tryBlock_before h w =
     (case persistencePlugin h of
        None \<Rightarrow> (Normal, None, w)
      | Some plugin \<Rightarrow>
          (case serializableCache h of
             None \<Rightarrow> (Normal, None, w)
           | Some sc \<Rightarrow>
               (let cacheContext = \<lparr>cache = sc, hasChanged = True\<rparr>;
                    r = beforeCacheAccess plugin cacheContext (store w);
                    w' = \<lparr>store = snd r, calls = calls w @ [CalledBeforeCacheAccess cacheContext]\<rparr>
                in (case fst r of
                      None \<Rightarrow> (Normal, Some cacheContext, w')
                    | Some m \<Rightarrow> (Throw (Thrown BeforeCacheAccess m), Some cacheContext, w')))))"

definition tryBlock_save :: "'s ResponseHandler \<Rightarrow> CacheRecord \<Rightarrow> 's world \<Rightarrow> completion \<times> 's world" where
  "tryBlock_save h cacheRecord w =
     (let r = saveCacheRecord (cacheStorage h) cacheRecord (store w);
          w' = \<lparr>store = snd r, calls = calls w @ [CalledSaveCacheRecord cacheRecord]\<rparr>
      in (case fst r of
            None \<Rightarrow> (Normal, w')
          | Some m \<Rightarrow> (Throw (Thrown SaveCacheRecord m), w')))"

definition tryBlock_guard ::
  "'s ResponseHandler \<Rightarrow> CacheRecord \<Rightarrow> bool \<Rightarrow> 's world \<Rightarrow> completion \<times> 's world" where
  "tryBlock_guard h cacheRecord handlingRefreshTokenResponse w =
     (case (if handlingRefreshTokenResponse then account cacheRecord else None) of
        None \<Rightarrow> tryBlock_save h cacheRecord w
      | Some a \<Rightarrow>
          (let key = generateAccountKey a;
               w' = w\<lparr>calls := calls w @ [CalledGetAccount key]\<rparr>
           in (case getAccount (cacheStorage h) (store w) key of
                 Inl m \<Rightarrow> (Throw (Thrown GetAccount m), w')
               | Inr None \<Rightarrow> (Return_null, w')
               | Inr (Some _) \<Rightarrow> tryBlock_save h cacheRecord w')))"

definition tryBlock ::
  "'s ResponseHandler \<Rightarrow> CacheRecord \<Rightarrow> bool \<Rightarrow> 's world \<Rightarrow> completion \<times> TokenCacheContext option \<times> 's world" where
  "tryBlock h cacheRecord handlingRefreshTokenResponse w =
     (case tryBlock_before h w of
        (Normal, cacheContext, w1) \<Rightarrow>
          (case tryBlock_guard h cacheRecord handlingRefreshTokenResponse w1 of
             (c, w2) \<Rightarrow> (c, cacheContext, w2))
      | (c, cacheContext, w1) \<Rightarrow> (c, cacheContext, w1))"

text \<open>
  The \<open>finally\<close> block (lines 183-188), given how the \<open>try\<close> block ended. An error thrown by
  \<open>afterCacheAccess\<close> replaces that ending, as a \<open>throw\<close> inside \<open>finally\<close> does.
\<close>

definition finallyBlock ::
  "'s ResponseHandler \<Rightarrow> completion \<Rightarrow> TokenCacheContext option \<Rightarrow> 's world \<Rightarrow> completion \<times> 's world" where
  "finallyBlock h c cacheContext w =
     (case persistencePlugin h of
        None \<Rightarrow> (c, w)
      | Some plugin \<Rightarrow>
          (case serializableCache h of
             None \<Rightarrow> (c, w)
           | Some sc \<Rightarrow>
               (case cacheContext of
                  None \<Rightarrow> (c, w)
                | Some ctx \<Rightarrow>
                    (let r = afterCacheAccess plugin ctx (store w);
                         w' = \<lparr>store = snd r, calls = calls w @ [CalledAfterCacheAccess ctx]\<rparr>
                     in (case fst r of
                           None \<Rightarrow> (c, w')
                         | Some m \<Rightarrow> (Throw (Thrown AfterCacheAccess m), w'))))))"

text \<open>Lines 162-188: the \<open>try\<close> statement as a whole.\<close>

definition cacheAccess ::
  "'s ResponseHandler \<Rightarrow> CacheRecord \<Rightarrow> bool \<Rightarrow> 's world \<Rightarrow> completion \<times> 's world" where
  "cacheAccess h cacheRecord handlingRefreshTokenResponse w =
     (case tryBlock h cacheRecord handlingRefreshTokenResponse w of
        (c, cacheContext, w1) \<Rightarrow> finallyBlock h c cacheContext w1)"

text \<open>
  Lines 114-161: everything \<open>handleServerTokenResponse\<close> does before it touches the store.
  The handler is returned next to the result: its two fields are assigned on the way, also
  when a later step throws.
\<close>

definition handleServerTokenResponse_prepare ::
  "deps \<Rightarrow> 's ResponseHandler \<Rightarrow> ServerAuthorizationTokenResponse \<Rightarrow> Authority \<Rightarrow> string option
     \<Rightarrow> string option \<Rightarrow> string list option \<Rightarrow> string option
     \<Rightarrow> (error + (AuthToken option \<times> RequestStateObject option \<times> CacheRecord)) \<times> 's ResponseHandler" where
  "handleServerTokenResponse_prepare d h serverTokenResponse authority cachedNonce cachedState
       requestScopes oboAssertion =
     (case handleServerTokenResponse_clientInfo d h serverTokenResponse of
        Inl e \<Rightarrow> (Inl e, h)
      | Inr h1 \<Rightarrow>
     (case handleServerTokenResponse_idToken d serverTokenResponse cachedNonce of
        Inl e \<Rightarrow> (Inl e, h1)
      | Inr idTokenObj \<Rightarrow>
     (let h2 = handleServerTokenResponse_subClaim h1 idTokenObj in
     (case handleServerTokenResponse_requestState d cachedState of
        Inl e \<Rightarrow> (Inl e, h2)
      | Inr requestStateObj \<Rightarrow>
     (case generateCacheRecord d h2 serverTokenResponse idTokenObj authority
             (case requestStateObj of None \<Rightarrow> None | Some rs \<Rightarrow> libraryState rs)
             requestScopes oboAssertion of
        Inl e \<Rightarrow> (Inl e, h2)
      | Inr cacheRecord \<Rightarrow> (Inr (idTokenObj, requestStateObj, cacheRecord), h2))))))"

text \<open>
  \<open>handleServerTokenResponse\<close> (lines 103-190). The result is what the promise settles
  with (\<open>Inl\<close> a rejection, \<open>Inr None\<close> the value \<open>null\<close>), the handler and the world after
  the call.
\<close>

definition handleServerTokenResponse ::
  "deps \<Rightarrow> 's ResponseHandler \<Rightarrow> ServerAuthorizationTokenResponse \<Rightarrow> Authority \<Rightarrow> string option
     \<Rightarrow> string option \<Rightarrow> string option \<Rightarrow> string option \<Rightarrow> string list option \<Rightarrow> string option
     \<Rightarrow> bool \<Rightarrow> 's world
     \<Rightarrow> (error + AuthenticationResult option) \<times> 's ResponseHandler \<times> 's world" where
  "handleServerTokenResponse d h serverTokenResponse authority resourceRequestMethod
       resourceRequestUri cachedNonce cachedState requestScopes oboAssertion
       handlingRefreshTokenResponse w =
     (case handleServerTokenResponse_prepare d h serverTokenResponse authority cachedNonce
             cachedState requestScopes oboAssertion of
        (Inl e, h') \<Rightarrow> (Inl e, h', w)
      | (Inr (idTokenObj, requestStateObj, cacheRecord), h') \<Rightarrow>
          (case cacheAccess h' cacheRecord handlingRefreshTokenResponse w of
             (Throw e, w') \<Rightarrow> (Inl e, h', w')
           | (Return_null, w') \<Rightarrow> (Inr None, h', w')
           | (Normal, w') \<Rightarrow>
               (case generateAuthenticationResult d cacheRecord idTokenObj False requestStateObj
                       resourceRequestMethod resourceRequestUri of
                  Inl e \<Rightarrow> (Inl e, h', w')
                | Inr res \<Rightarrow> (Inr (Some res), h', w'))))"

section \<open>BaseClient\<close>

text \<open>
  The header names and the content type are constants of \<open>utils/Constants\<close>, which is not
  among the sources: they are parameters.
\<close>

record HeaderConstants =
  CONTENT_TYPE :: string
  URL_FORM_CONTENT_TYPE :: string
  X_CLIENT_SKU :: string
  X_CLIENT_VER :: string
  X_CLIENT_OS :: string
  X_CLIENT_CPU :: string
  X_CLIENT_CURR_TELEM :: string
  X_CLIENT_LAST_TELEM :: string

record LibraryInfo =
  sku :: string
  version :: string
  os :: string
  cpu :: string

text \<open>
  The telemetry manager keeps its cache in a state of type \<open>'t\<close>; \<open>clearTelemetryCache\<close>
  changes it. \<open>sendPostRequest\<close> is the network manager's, which may throw.
\<close>

record 't ServerTelemetryManager =
  clearTelemetryCache :: "'t \<Rightarrow> 't"

record NetworkRequestOptions =
  body :: string
  headers :: "string \<rightharpoonup> string"

record NetworkResponse =
  status :: int
  response_body :: ServerAuthorizationTokenResponse

record RequestThumbprint =
  thumb_clientId :: string
  thumb_authority :: string
  thumb_scopes :: "string list"

record 't BaseClient =
  constants :: HeaderConstants
  libraryInfo :: LibraryInfo
  serverTelemetryManager :: "'t ServerTelemetryManager option"
  sendPostRequest :: "RequestThumbprint \<Rightarrow> string \<Rightarrow> NetworkRequestOptions \<Rightarrow> string + NetworkResponse"

record 't telemetryWorld =
  telemetry :: 't
  clearCalls :: nat

text \<open>\<open>createDefaultTokenRequestHeaders\<close> (lines 77-101): an empty object, then one assignment.\<close>

definition createDefaultTokenRequestHeaders :: "'t BaseClient \<Rightarrow> (string \<rightharpoonup> string)" where
  "createDefaultTokenRequestHeaders this =
     Map.empty(CONTENT_TYPE (constants this) \<mapsto> URL_FORM_CONTENT_TYPE (constants this))"

text \<open>\<open>createDefaultLibraryHeaders\<close> (lines 106-116): four assignments in the source's order.\<close>

definition createDefaultLibraryHeaders :: "'t BaseClient \<Rightarrow> (string \<rightharpoonup> string)" where
  "createDefaultLibraryHeaders this =
     Map.empty(X_CLIENT_SKU (constants this) \<mapsto> sku (libraryInfo this),
               X_CLIENT_VER (constants this) \<mapsto> version (libraryInfo this),
               X_CLIENT_OS (constants this) \<mapsto> os (libraryInfo this),
               X_CLIENT_CPU (constants this) \<mapsto> cpu (libraryInfo this))"

text \<open>
  \<open>executePostToTokenEndpoint\<close> (lines 125-138). \<open>clearCalls\<close> counts the calls of
  \<open>clearTelemetryCache\<close>.
\<close>

definition executePostToTokenEndpoint ::
  "'t BaseClient \<Rightarrow> string \<Rightarrow> string \<Rightarrow> (string \<rightharpoonup> string) \<Rightarrow> RequestThumbprint \<Rightarrow> 't telemetryWorld
     \<Rightarrow> (error + NetworkResponse) \<times> 't telemetryWorld" where
  "executePostToTokenEndpoint this tokenEndpoint queryString hdrs thumbprint w =
     (case throwsFrom SendPostRequest
             (sendPostRequest this thumbprint tokenEndpoint \<lparr>body = queryString, headers = hdrs\<rparr>) of
        Inl e \<Rightarrow> (Inl e, w)
      | Inr response \<Rightarrow>
          (case serverTelemetryManager this of
             None \<Rightarrow> (Inr response, w)
           | Some manager \<Rightarrow>
               if status response < 500 \<and> status response \<noteq> 429
               then (Inr response,
                     w\<lparr>telemetry := clearTelemetryCache manager (telemetry w),
                       clearCalls := Suc (clearCalls w)\<rparr>)
               else (Inr response, w)))"

section \<open>Vocabulary of the properties\<close>

text \<open>What a call list gained: the calls of \<open>w'\<close> made after those of \<open>w\<close>.\<close>

definition newCalls :: "'s world \<Rightarrow> 's world \<Rightarrow> event list" where
  "newCalls w w' = drop (length (calls w)) (calls w')"

fun isHookCall :: "event \<Rightarrow> bool" where
  "isHookCall (CalledBeforeCacheAccess _) = True"
| "isHookCall (CalledAfterCacheAccess _) = True"
| "isHookCall _ = False"

fun isSaveCall :: "event \<Rightarrow> bool" where
  "isSaveCall (CalledSaveCacheRecord _) = True"
| "isSaveCall _ = False"


text \<open>
  How a call leaves the store section when the plugin is notified: between
  \<open>beforeCacheAccess\<close> and \<open>afterCacheAccess\<close> (both with the context \<open>ctx\<close>) the calls
  \<open>mid\<close> were made, \<open>afterCacheAccess\<close> came last and received the store \<open>s\<close>, the world
  after the call holds the store it returned, and the caller receives \<open>outcome\<close> when
  \<open>afterCacheAccess\<close> returned and the error of \<open>afterCacheAccess\<close> when it threw.
\<close>

definition leftThroughHook ::
  "'s ICachePlugin \<Rightarrow> TokenCacheContext \<Rightarrow> 's world \<Rightarrow> event list \<Rightarrow> 's \<Rightarrow> error + 'r
     \<Rightarrow> error + 'r \<Rightarrow> 's world \<Rightarrow> bool" where
  "leftThroughHook p ctx w mid s outcome res w2 =
     (w2 = \<lparr>store = snd (afterCacheAccess p ctx s),
             calls = calls w @ CalledBeforeCacheAccess ctx # mid @ [CalledAfterCacheAccess ctx]\<rparr>
      \<and> res = (case fst (afterCacheAccess p ctx s) of
                  None \<Rightarrow> outcome
                | Some msg \<Rightarrow> Inl (Thrown AfterCacheAccess msg)))"

text \<open>The access token of the cache record that the steps before the store section built.\<close>

definition preparedAccessToken ::
  "(error + (AuthToken option \<times> RequestStateObject option \<times> CacheRecord)) \<times> 'h
     \<Rightarrow> AccessTokenEntity option" where
  "preparedAccessToken p = (case fst p of Inl e \<Rightarrow> None | Inr (tok, rso, cr) \<Rightarrow> accessToken cr)"

text \<open>
  The cache record of the spec's access-token-only scenario, for a handler \<open>h\<close> and an
  authority \<open>a\<close>: one access token entity, the other four slots \<open>null\<close>.
\<close>

definition scenarioRecord :: "deps \<Rightarrow> 's ResponseHandler \<Rightarrow> Authority \<Rightarrow> string option \<Rightarrow> CacheRecord" where
  "scenarioRecord d h a obo =
     \<lparr>account = None, idToken = None,
      accessToken = Some (createAccessTokenEntity (Some []) (generateEnvironmentFromAuthority d a) ''AT1''
                            (clientId h) (tenant a) ''User.Read'' (addJS (nowSeconds d) (Num 3600))
                            (addJS (addJS (nowSeconds d) (Num 3600)) (Num 7200)) (Some ''Bearer'') obo),
      refreshToken = None, appMetadata = None\<rparr>"

section \<open>Sample collaborators and inputs\<close>

text \<open>
  One concrete choice of the collaborators, used to run the definitions above on concrete
  inputs. The sample decoder is the identity (the sample states have no escapes), the sample
  scope set reads a string as one scope, and the sample crypto object decodes the client
  infos \<open>ci\<close> and \<open>ci0\<close> (the second to an empty \<open>uid\<close>), the token \<open>idt\<close> and the
  states \<open>st\<close> and \<open>st1\<close> (sent at second 1000 and at second 1) and \<open>st0\<close> (no library
  state), and rejects every other text.
\<close>

definition demoIdToken :: AuthToken where
  "demoIdToken =
     \<lparr>rawToken = ''idt'', claims = \<lparr>sub = Some ''s1'', oid = None, tid = Some ''t1'',
                                         nonce = Some ''n1''\<rparr>\<rparr>"

definition demoDeps :: deps where
  "demoDeps =
     \<lparr>decodeURIComponent = Inr,
      isInteractionRequiredError = (\<lambda>e ed se. e = Some ''interaction_required''),
      buildClientInfo = (\<lambda>s. if s = ''ci'' then Inr \<lparr>uid = Some ''u1'', utid = Some ''t1''\<rparr>
                              else if s = ''ci0'' then Inr \<lparr>uid = Some [], utid = Some ''t1''\<rparr>
                              else Inl ''malformed client_info''),
      newAuthToken = (\<lambda>s. if s = ''idt''
                           then Inr demoIdToken
                           else Inl ''malformed token''),
      parseRequestState = (\<lambda>s. if s = ''st''
                                then Inr \<lparr>userRequestState = ''user'',
                                          libraryState = Some \<lparr>ts = Some (Num 1000)\<rparr>\<rparr>
                                else if s = ''st1''
                                then Inr \<lparr>userRequestState = ''user'',
                                          libraryState = Some \<lparr>ts = Some (Num 1)\<rparr>\<rparr>
                                else if s = ''st0''
                                then Inr \<lparr>userRequestState = ''user'', libraryState = None\<rparr>
                                else Inl ''malformed state''),
      generateEnvironmentFromAuthority = canonicalAuthority,
      nowSeconds = Num 5000,
      ScopeSet_fromString = (\<lambda>s. if s = [] then Inl ''no scopes'' else Inr [s]),
      ScopeSet_new = (\<lambda>xs. if xs = [] then Inl ''no scopes'' else Inr xs),
      printScopes = join '' '',
      asArray = (\<lambda>xs. xs),
      createAccount = (\<lambda>ci a t obo. Inr \<lparr>homeAccountId = ''u1.t1'', environment = canonicalAuthority a,
                                            realm = orEmpty (tid (claims t))\<rparr>),
      createGenericAccount = (\<lambda>a t obo. Inr \<lparr>homeAccountId = orEmpty (sub (claims t)),
                                                environment = canonicalAuthority a,
                                                realm = orEmpty (tid (claims t))\<rparr>),
      getAccountInfo = (\<lambda>a. \<lparr>info_homeAccountId = homeAccountId a, info_environment = environment a,
                               info_tenantId = realm a\<rparr>),
      signPopToken = (\<lambda>s m u. Inr (''signed '' @ s @ '' '' @ toStringJS m @ '' '' @ toStringJS u)),
      POP = ''pop''\<rparr>"

definition demoCodeResponse :: "string \<Rightarrow> string option \<Rightarrow> ServerAuthorizationCodeResponse" where
  "demoCodeResponse st err =
     \<lparr>hash_state = Some st, hash_client_info = None, hash_error = err,
      hash_error_description = None, hash_suberror = None\<rparr>"

definition emptyTokenResponse :: ServerAuthorizationTokenResponse where
  "emptyTokenResponse =
     \<lparr>access_token = None, id_token = None, refresh_token = None, client_info = None,
      token_type = None, scope = None, expires_in = None, ext_expires_in = None, foci = None,
      error = None, error_description = None, error_codes = None, suberror = None,
      timestamp = None, correlation_id = None, trace_id = None\<rparr>"

definition demoConstants :: HeaderConstants where
  "demoConstants =
     \<lparr>CONTENT_TYPE = ''Content-Type'', URL_FORM_CONTENT_TYPE = ''application/x-www-form-urlencoded'',
      X_CLIENT_SKU = ''x-client-SKU'', X_CLIENT_VER = ''x-client-VER'', X_CLIENT_OS = ''x-client-OS'',
      X_CLIENT_CPU = ''x-client-CPU'', X_CLIENT_CURR_TELEM = ''x-client-current-telemetry'',
      X_CLIENT_LAST_TELEM = ''x-client-last-telemetry''\<rparr>"

definition demoClient :: "int \<Rightarrow> (string list) BaseClient" where
  "demoClient st =
     \<lparr>constants = demoConstants,
      libraryInfo = \<lparr>sku = ''msal.js.common'', version = ''1.0'', os = ''linux'', cpu = ''x64''\<rparr>,
      serverTelemetryManager = Some \<lparr>clearTelemetryCache = (\<lambda>t. [])\<rparr>,
      sendPostRequest = (\<lambda>tp ep opts. Inr \<lparr>status = st, response_body = emptyTokenResponse\<rparr>)\<rparr>"

definition demoThumbprint :: RequestThumbprint where
  "demoThumbprint = \<lparr>thumb_clientId = ''client'', thumb_authority = ''login.example.com'', thumb_scopes = [''User.Read'']\<rparr>"

definition demoAuthority :: Authority where
  "demoAuthority =
     \<lparr>canonicalAuthority = ''login.example.com'', authorityType = Default, protocolMode = ''AAD'',
      tenant = ''t1''\<rparr>"

text \<open>A sample store: the accounts it holds; saving a record adds the record's account.\<close>

definition demoCache :: "(AccountEntity list) CacheManager" where
  "demoCache =
     \<lparr>getAccount = (\<lambda>s k. Inr (find (\<lambda>a. generateAccountKey a = k) s)),
      saveCacheRecord = (\<lambda>r s. (None, case account r of None \<Rightarrow> s | Some a \<Rightarrow> a # s))\<rparr>"

text \<open>A sample plugin whose hooks leave the store alone; \<open>afterCacheAccess\<close> reports \<open>failure\<close>.\<close>

definition demoPlugin :: "string option \<Rightarrow> (AccountEntity list) ICachePlugin" where
  "demoPlugin failure =
     \<lparr>beforeCacheAccess = (\<lambda>ctx s. (None, s)), afterCacheAccess = (\<lambda>ctx s. (failure, s))\<rparr>"

definition demoHandler ::
  "(AccountEntity list) ICachePlugin option \<Rightarrow> (AccountEntity list) ResponseHandler" where
  "demoHandler plugin = newResponseHandler ''client'' demoCache (Some (TokenCache 0)) plugin"

definition demoContext :: TokenCacheContext where
  "demoContext = \<lparr>cache = TokenCache 0, hasChanged = True\<rparr>"

definition demoAccount :: AccountEntity where
  "demoAccount = \<lparr>homeAccountId = ''u1.t1'', environment = ''login.example.com'', realm = ''t1''\<rparr>"

text \<open>A sample response to a refresh request, with every token and \<open>client_info\<close>.\<close>

definition demoTokenResponse :: ServerAuthorizationTokenResponse where
  "demoTokenResponse =
     emptyTokenResponse\<lparr>access_token := Some ''AT1'', id_token := Some ''idt'',
       refresh_token := Some ''RT1'', client_info := Some ''ci'', token_type := Some ''Bearer'',
       scope := Some ''User.Read'', expires_in := Some (Num 3600),
       ext_expires_in := Some (Num 7200)\<rparr>"

text \<open>The response of the spec's scenario: an access token only.\<close>

definition scenarioResponse :: ServerAuthorizationTokenResponse where
  "scenarioResponse =
     emptyTokenResponse\<lparr>access_token := Some ''AT1'', expires_in := Some (Num 3600),
       ext_expires_in := Some (Num 7200), scope := Some ''User.Read'', token_type := Some ''Bearer''\<rparr>"

text \<open>What the sample handler has become, and the record it has built, once the sample response is prepared.\<close>

definition demoPrepared :: "'s ResponseHandler \<Rightarrow> 's ResponseHandler" where
  "demoPrepared h =
     h\<lparr>clientInfo := Some \<lparr>uid = Some ''u1'', utid = Some ''t1''\<rparr>,
       homeAccountIdentifier := Some ''u1.t1''\<rparr>"

definition demoHandlerAfter ::
  "(AccountEntity list) ICachePlugin option \<Rightarrow> (AccountEntity list) ResponseHandler" where
  "demoHandlerAfter plugin = demoPrepared (demoHandler plugin)"

definition demoRecord :: CacheRecord where
  "demoRecord =
     \<lparr>account = Some demoAccount,
      idToken = Some (createIdTokenEntity (Some ''u1.t1'') ''login.example.com'' ''idt'' ''client'' ''t1'' None),
      accessToken = Some (createAccessTokenEntity (Some ''u1.t1'') ''login.example.com'' ''AT1'' ''client''
                            ''t1'' ''User.Read'' (Num 8600) (Num 15800) (Some ''Bearer'') None),
      refreshToken = Some (createRefreshTokenEntity (Some ''u1.t1'') ''login.example.com'' ''RT1'' ''client''
                             None None),
      appMetadata = None\<rparr>"

definition demoWorld :: "(AccountEntity list) world" where
  "demoWorld = \<lparr>store = [], calls = []\<rparr>"

text \<open>A record whose access token is a proof-of-possession token.\<close>

definition demoPopRecord :: CacheRecord where
  "demoPopRecord =
     \<lparr>account = None, idToken = None,
      accessToken = Some (createAccessTokenEntity (Some []) ''login.example.com'' ''AT1'' ''client''
                            ''t1'' ''User.Read'' (Num 8600) (Num 15800) (Some ''pop'') None),
      refreshToken = None, appMetadata = None\<rparr>"

text \<open>
  A sample store that holds no account and whose write fails, a sample store whose lookup
  fails, and a sample plugin whose \<open>beforeCacheAccess\<close> fails.
\<close>

definition demoFullCache :: "(AccountEntity list) CacheManager" where
  "demoFullCache =
     \<lparr>getAccount = (\<lambda>s k. Inr None), saveCacheRecord = (\<lambda>r s. (Some ''quota exceeded'', s))\<rparr>"

definition demoOfflineCache :: "(AccountEntity list) CacheManager" where
  "demoOfflineCache =
     \<lparr>getAccount = (\<lambda>s k. Inl ''store offline''), saveCacheRecord = (\<lambda>r s. (None, s))\<rparr>"

definition demoLockedPlugin :: "(AccountEntity list) ICachePlugin" where
  "demoLockedPlugin =
     \<lparr>beforeCacheAccess = (\<lambda>ctx s. (Some ''locked'', s)), afterCacheAccess = (\<lambda>ctx s. (None, s))\<rparr>"

text \<open>
  A handler on a given store and plugin, and the call that hands it the sample response,
  as the response to a refresh request or not, in a given world.
\<close>

definition demoHandlerOn ::
  "(AccountEntity list) CacheManager \<Rightarrow> (AccountEntity list) ICachePlugin
     \<Rightarrow> (AccountEntity list) ResponseHandler" where
  "demoHandlerOn c p = newResponseHandler ''client'' c (Some (TokenCache 0)) (Some p)"

definition demoCall ::
  "(AccountEntity list) CacheManager \<Rightarrow> (AccountEntity list) ICachePlugin \<Rightarrow> bool
     \<Rightarrow> (AccountEntity list) world
     \<Rightarrow> (error + AuthenticationResult option) \<times> (AccountEntity list) ResponseHandler
         \<times> (AccountEntity list) world" where
  "demoCall c p handlingRefresh w =
     handleServerTokenResponse demoDeps (demoHandlerOn c p) demoTokenResponse demoAuthority None None
       (Some ''n1'') None None None handlingRefresh w"

text \<open>The sample response with other lifetimes, and the record built from it.\<close>

definition demoExpiringResponse :: "number \<Rightarrow> number \<Rightarrow> ServerAuthorizationTokenResponse" where
  "demoExpiringResponse e x = demoTokenResponse\<lparr>expires_in := Some e, ext_expires_in := Some x\<rparr>"

definition demoRecordExpiring :: "number \<Rightarrow> number \<Rightarrow> CacheRecord" where
  "demoRecordExpiring on ext =
     demoRecord\<lparr>accessToken :=
       Some (createAccessTokenEntity (Some ''u1.t1'') ''login.example.com'' ''AT1'' ''client''
               ''t1'' ''User.Read'' on ext (Some ''Bearer'') None)\<rparr>"

text \<open>
  Two calls on one handler: the sample response first, then a response whose \<open>client_info\<close>
  decodes to an empty \<open>uid\<close>.
\<close>

definition demoEmptyUidResponse :: ServerAuthorizationTokenResponse where
  "demoEmptyUidResponse = demoTokenResponse\<lparr>client_info := Some ''ci0''\<rparr>"

definition demoFirstCall ::
  "(error + AuthenticationResult option) \<times> (AccountEntity list) ResponseHandler
     \<times> (AccountEntity list) world" where
  "demoFirstCall =
     handleServerTokenResponse demoDeps (demoHandler None) demoTokenResponse demoAuthority None None
       (Some ''n1'') None None None False demoWorld"

definition demoSecondCall ::
  "ServerAuthorizationTokenResponse
     \<Rightarrow> (error + AuthenticationResult option) \<times> (AccountEntity list) ResponseHandler
         \<times> (AccountEntity list) world" where
  "demoSecondCall r =
     handleServerTokenResponse demoDeps (fst (snd demoFirstCall)) r demoAuthority None None
       (Some ''n1'') None None None False (snd (snd demoFirstCall))"

section \<open>Helper lemmas\<close>

subsection \<open>Numbers\<close>

lemma pow2_nonpos: "k \<le> 0 \<Longrightarrow> pow2 k = 1 / 2 ^ nat (- k)"
  by (cases "k = 0") (simp_all add: pow2_def)

lemma pow2_nonneg: "0 \<le> k \<Longrightarrow> pow2 k = 2 ^ nat k"
  by (simp add: pow2_def)

lemma roundHalfEven_of_int: "roundHalfEven (of_int m) = m"
  by (simp add: roundHalfEven_def)

lemma exponentOf_of_int:
  assumes "n \<noteq> 0"
  shows "exponentOf (of_int n) = bitlen \<bar>n\<bar> - 1"
    and "0 \<le> bitlen \<bar>n\<bar> - 1"
    and "(2::int) ^ nat (bitlen \<bar>n\<bar> - 1) \<le> \<bar>n\<bar>"
proof -
  have pos: "0 < \<bar>n\<bar>" using assms by simp
  have b: "(2::int) ^ nat (bitlen \<bar>n\<bar> - 1) \<le> \<bar>n\<bar>"
    using bitlen_bounds[OF pos] by simp
  have ge: "1 \<le> bitlen \<bar>n\<bar>"
    using pos bitlen_eq_zero_iff[of "\<bar>n\<bar>"] bitlen_nonneg[of "\<bar>n\<bar>"] by linarith
  have q: "quotient_of \<bar>of_int n :: rat\<bar> = (\<bar>n\<bar>, 1)"
    unfolding of_int_abs[symmetric] by (rule quotient_of_rat_of_int)
  have one: "bitlen 1 = 1"
    by (subst compute_bitlen) simp
  have "(of_int (2 ^ nat (bitlen \<bar>n\<bar> - 1)) :: rat) \<le> of_int \<bar>n\<bar>"
    using b by (simp only: of_int_le_iff)
  hence le: "pow2 (bitlen \<bar>n\<bar> - 1) \<le> \<bar>of_int n :: rat\<bar>"
    using ge by (simp add: pow2_nonneg)
  show "exponentOf (of_int n) = bitlen \<bar>n\<bar> - 1"
    using le by (simp add: exponentOf_def q one Let_def)
  show "0 \<le> bitlen \<bar>n\<bar> - 1" using ge by simp
  show "(2::int) ^ nat (bitlen \<bar>n\<bar> - 1) \<le> \<bar>n\<bar>" by (rule b)
qed

text \<open>An integer below \<open>2^53\<close> in magnitude is a double: rounding leaves it as it is.\<close>

lemma roundToDouble_of_int:
  assumes "\<bar>n\<bar> < 2 ^ 53"
  shows "roundToDouble (of_int n) = Num (of_int n)"
proof (cases "n = 0")
  case True
  then show ?thesis by (simp add: roundToDouble_def)
next
  case False
  let ?k = "bitlen \<bar>n\<bar> - 1"
  have e: "exponentOf (of_int n) = ?k" and k0: "0 \<le> ?k" and b: "(2::int) ^ nat ?k \<le> \<bar>n\<bar>"
    using exponentOf_of_int[OF False] by blast+
  have lt: "(2::int) ^ nat ?k < 2 ^ 53" using b assms by linarith
  have "\<not> 53 \<le> nat ?k"
  proof
    assume "53 \<le> nat ?k"
    hence "(2::int) ^ 53 \<le> 2 ^ nat ?k" by (rule power_increasing) simp
    with lt show False by linarith
  qed
  hence k52: "?k \<le> 52" by linarith
  define j where "j = nat (52 - ?k)"
  have m: "max (exponentOf (of_int n)) (- 1022) = ?k" using e k0 by simp
  have ulp: "pow2 (?k - 52) = 1 / 2 ^ j"
    using k52 by (simp add: pow2_nonpos j_def)
  have quot: "(of_int n :: rat) / (1 / 2 ^ j) = of_int (n * 2 ^ j)" by simp
  have y: "(of_int (roundHalfEven (of_int n / (1 / 2 ^ j))) :: rat) * (1 / 2 ^ j) = of_int n"
    unfolding quot roundHalfEven_of_int by simp
  have "(of_int \<bar>n\<bar> :: rat) < of_int (2 ^ 53)" using assms by (simp only: of_int_less_iff)
  hence small: "\<bar>of_int n :: rat\<bar> < 2 ^ 53" by simp
  have "(2::rat) ^ 53 \<le> 2 ^ 1024" by (rule power_increasing) simp_all
  hence fin: "\<not> pow2 1024 \<le> \<bar>of_int n :: rat\<bar>" using small by (simp add: pow2_def)
  show ?thesis
    unfolding roundToDouble_def Let_def m ulp y using False fin by simp
qed

lemma roundToDouble_numeral:
  "(numeral k :: int) < 2 ^ 53 \<Longrightarrow> roundToDouble (numeral k) = Num (numeral k)"
  using roundToDouble_of_int[of "numeral k"] by simp

lemma addJS_of_int:
  "\<bar>a + b\<bar> < 2 ^ 53 \<Longrightarrow> addJS (Num (of_int a)) (Num (of_int b)) = Num (of_int (a + b))"
  using roundToDouble_of_int[of "a + b"] by simp

text \<open>Just above \<open>2^53\<close> the doubles are the even integers.\<close>

lemma roundToDouble_above_safe_range:
  "roundToDouble 9007199254740993 = Num 9007199254740992"
  by code_simp

lemma isEmpty_truthy: "isEmpty x = (\<not> truthy x)"
  by (simp add: isEmpty_def truthy_def split: option.splits)

subsection \<open>The store section of \<open>handleServerTokenResponse\<close>\<close>

lemma tryBlock_before_none:
  "persistencePlugin h = None \<or> serializableCache h = None \<Longrightarrow> tryBlock_before h w = (Normal, None, w)"
  by (auto simp add: tryBlock_before_def split: option.splits)

lemma tryBlock_before_plugin:
  assumes "persistencePlugin h = Some p" and "serializableCache h = Some sc"
  shows "tryBlock_before h w =
     ((case fst (beforeCacheAccess p \<lparr>cache = sc, hasChanged = True\<rparr> (store w)) of
         None \<Rightarrow> Normal | Some m \<Rightarrow> Throw (Thrown BeforeCacheAccess m)),
      Some \<lparr>cache = sc, hasChanged = True\<rparr>,
      \<lparr>store = snd (beforeCacheAccess p \<lparr>cache = sc, hasChanged = True\<rparr> (store w)),
       calls = calls w @ [CalledBeforeCacheAccess \<lparr>cache = sc, hasChanged = True\<rparr>]\<rparr>)"
  using assms by (simp add: tryBlock_before_def Let_def split: option.splits)

lemma tryBlock_save_calls:
  "calls (snd (tryBlock_save h r w)) = calls w @ [CalledSaveCacheRecord r]"
  by (simp add: tryBlock_save_def Let_def split: option.splits)

lemma tryBlock_guard_calls:
  "\<exists>mid. calls (snd (tryBlock_guard h r hr w)) = calls w @ mid \<and> filter isHookCall mid = []"
  by (auto simp add: tryBlock_guard_def tryBlock_save_calls Let_def split: option.splits sum.splits)

lemma tryBlock_guard_absent:
  assumes "account r = Some a"
    and "getAccount (cacheStorage h) (store w) (generateAccountKey a) = Inr None"
  shows "tryBlock_guard h r True w = (Return_null, w\<lparr>calls := calls w @ [CalledGetAccount (generateAccountKey a)]\<rparr>)"
  using assms by (simp add: tryBlock_guard_def Let_def)

lemma finallyBlock_none:
  "persistencePlugin h = None \<or> serializableCache h = None \<or> ctx = None \<Longrightarrow> finallyBlock h c ctx w = (c, w)"
  by (auto simp add: finallyBlock_def split: option.splits)

lemma finallyBlock_plugin:
  assumes "persistencePlugin h = Some p" and "serializableCache h = Some sc"
  shows "finallyBlock h c (Some ctx) w =
     ((case fst (afterCacheAccess p ctx (store w)) of
         None \<Rightarrow> c | Some m \<Rightarrow> Throw (Thrown AfterCacheAccess m)),
      \<lparr>store = snd (afterCacheAccess p ctx (store w)),
       calls = calls w @ [CalledAfterCacheAccess ctx]\<rparr>)"
  using assms by (simp add: finallyBlock_def Let_def split: option.splits)

lemma cacheAccess_plugin_calls:
  assumes "persistencePlugin h = Some p" and "serializableCache h = Some sc"
  shows "\<exists>mid. calls (snd (cacheAccess h r hr w)) =
            calls w @ CalledBeforeCacheAccess \<lparr>cache = sc, hasChanged = True\<rparr> # mid
              @ [CalledAfterCacheAccess \<lparr>cache = sc, hasChanged = True\<rparr>]
          \<and> filter isHookCall mid = []"
proof (cases "fst (beforeCacheAccess p \<lparr>cache = sc, hasChanged = True\<rparr> (store w))")
  case (Some m)
  then show ?thesis
    by (simp add: cacheAccess_def tryBlock_def tryBlock_before_plugin[OF assms]
        finallyBlock_plugin[OF assms])
next
  case None
  let ?w1 = "\<lparr>store = snd (beforeCacheAccess p \<lparr>cache = sc, hasChanged = True\<rparr> (store w)),
       calls = calls w @ [CalledBeforeCacheAccess \<lparr>cache = sc, hasChanged = True\<rparr>]\<rparr>"
  obtain mid where mid: "calls (snd (tryBlock_guard h r hr ?w1)) = calls ?w1 @ mid"
      "filter isHookCall mid = []"
    using tryBlock_guard_calls by blast
  show ?thesis
    using None mid
    by (cases "tryBlock_guard h r hr ?w1")
       (simp add: cacheAccess_def tryBlock_def tryBlock_before_plugin[OF assms]
        finallyBlock_plugin[OF assms])
qed







lemma handle_prepared:
  assumes "handleServerTokenResponse_prepare d h r a cn cs rs obo = (Inr (tok, rso, cr), h')"
  shows "handleServerTokenResponse d h r a m u cn cs rs obo hr w =
     (case cacheAccess h' cr hr w of
        (Throw e, w') \<Rightarrow> (Inl e, h', w')
      | (Return_null, w') \<Rightarrow> (Inr None, h', w')
      | (Normal, w') \<Rightarrow>
          (case generateAuthenticationResult d cr tok False rso m u of
             Inl e \<Rightarrow> (Inl e, h', w')
           | Inr res \<Rightarrow> (Inr (Some res), h', w')))"
  using assms by (simp add: handleServerTokenResponse_def)



subsection \<open>The handler's configuration and identifier\<close>

lemma clientInfo_step_config:
  "handleServerTokenResponse_clientInfo d h r = Inr h1 \<Longrightarrow>
     persistencePlugin h1 = persistencePlugin h \<and> serializableCache h1 = serializableCache h
     \<and> cacheStorage h1 = cacheStorage h \<and> clientId h1 = clientId h"
  by (auto simp add: handleServerTokenResponse_clientInfo_def split: if_splits sum.splits)

lemma subClaim_step_config:
  "persistencePlugin (handleServerTokenResponse_subClaim h tok) = persistencePlugin h
   \<and> serializableCache (handleServerTokenResponse_subClaim h tok) = serializableCache h
   \<and> cacheStorage (handleServerTokenResponse_subClaim h tok) = cacheStorage h
   \<and> clientId (handleServerTokenResponse_subClaim h tok) = clientId h"
  by (simp add: handleServerTokenResponse_subClaim_def split: option.splits)

lemma prepare_handler:
  "snd (handleServerTokenResponse_prepare d h r a cn cs rs obo) =
     (case handleServerTokenResponse_clientInfo d h r of
        Inl e \<Rightarrow> h
      | Inr h1 \<Rightarrow>
          (case handleServerTokenResponse_idToken d r cn of
             Inl e \<Rightarrow> h1
           | Inr tok \<Rightarrow> handleServerTokenResponse_subClaim h1 tok))"
  by (simp add: handleServerTokenResponse_prepare_def Let_def split: sum.splits)

lemma prepare_config:
  "persistencePlugin (snd (handleServerTokenResponse_prepare d h r a cn cs rs obo)) = persistencePlugin h
   \<and> serializableCache (snd (handleServerTokenResponse_prepare d h r a cn cs rs obo)) = serializableCache h
   \<and> cacheStorage (snd (handleServerTokenResponse_prepare d h r a cn cs rs obo)) = cacheStorage h
   \<and> clientId (snd (handleServerTokenResponse_prepare d h r a cn cs rs obo)) = clientId h"
  by (auto simp add: prepare_handler subClaim_step_config dest: clientInfo_step_config split: sum.splits)

lemma handle_handler:
  "fst (snd (handleServerTokenResponse d h r a m u cn cs rs obo hr w)) =
     snd (handleServerTokenResponse_prepare d h r a cn cs rs obo)"
  by (simp add: handleServerTokenResponse_def split: prod.splits sum.splits completion.splits)

lemma tryBlock_before_cong:
  "persistencePlugin h' = persistencePlugin h \<Longrightarrow> serializableCache h' = serializableCache h \<Longrightarrow>
     tryBlock_before h' w = tryBlock_before h w"
  by (simp add: tryBlock_before_def split: option.splits)

lemma newCalls_same: "newCalls w w = []"
  by (simp add: newCalls_def)

lemma cacheAccess_guard_absent:
  assumes acct: "account cr = Some acc"
    and before: "tryBlock_before h w = (Normal, ctx, w1)"
    and lookup: "getAccount (cacheStorage h) (store w1) (generateAccountKey acc) = Inr None"
  shows "cacheAccess h cr True w =
           finallyBlock h Return_null ctx (w1\<lparr>calls := calls w1 @ [CalledGetAccount (generateAccountKey acc)]\<rparr>)"
  using assms by (simp add: cacheAccess_def tryBlock_def tryBlock_guard_absent)

lemma before_Normal_cases:
  assumes "tryBlock_before h w = (Normal, ctx, w1)"
  shows "((persistencePlugin h = None \<or> serializableCache h = None) \<and> ctx = None \<and> w1 = w)
       \<or> (\<exists>p sc. persistencePlugin h = Some p \<and> serializableCache h = Some sc
             \<and> ctx = Some \<lparr>cache = sc, hasChanged = True\<rparr>
             \<and> calls w1 = calls w @ [CalledBeforeCacheAccess \<lparr>cache = sc, hasChanged = True\<rparr>])"
  using assms by (auto simp add: tryBlock_before_def Let_def split: option.splits)

lemma handle_world:
  "snd (snd (handleServerTokenResponse d h r a m u cn cs rs obo hr w)) =
     (case handleServerTokenResponse_prepare d h r a cn cs rs obo of
        (Inl e, h') \<Rightarrow> w
      | (Inr (tok, rso, cr), h') \<Rightarrow> snd (cacheAccess h' cr hr w))"
  by (simp add: handleServerTokenResponse_def split: prod.splits sum.splits completion.splits)


lemma handle_identifier:
  "homeAccountIdentifier (fst (snd (handleServerTokenResponse d h r a m u cn cs rs obo hr w))) =
     (case handleServerTokenResponse_clientInfo d h r of
        Inl e \<Rightarrow> homeAccountIdentifier h
      | Inr h1 \<Rightarrow>
          (case handleServerTokenResponse_idToken d r cn of
             Inl e \<Rightarrow> homeAccountIdentifier h1
           | Inr tok \<Rightarrow> homeAccountIdentifier (handleServerTokenResponse_subClaim h1 tok)))"
  by (simp add: handle_handler prepare_handler split: sum.splits)

lemma clientInfo_step_decoded:
  assumes "truthy (client_info r)" and "buildClientInfo d (orEmpty (client_info r)) = Inr ci"
  shows "handleServerTokenResponse_clientInfo d h r =
     Inr (if \<not> isEmpty (uid ci) \<and> \<not> isEmpty (utid ci)
          then h\<lparr>clientInfo := Some ci,
                 homeAccountIdentifier := Some (orEmpty (uid ci) @ ''.'' @ orEmpty (utid ci))\<rparr>
          else h\<lparr>clientInfo := Some ci\<rparr>)"
  using assms by (simp add: handleServerTokenResponse_clientInfo_def throwsFrom_def)

lemma clientInfo_step_absent:
  assumes "\<not> truthy (client_info r)"
  shows "handleServerTokenResponse_clientInfo d h r = Inr (h\<lparr>homeAccountIdentifier := Some []\<rparr>)"
  using assms by (simp add: handleServerTokenResponse_clientInfo_def)

lemma subClaim_step_identifier:
  "homeAccountIdentifier (handleServerTokenResponse_subClaim h tok) =
     (if truthy (homeAccountIdentifier h) then homeAccountIdentifier h
      else (case tok of None \<Rightarrow> homeAccountIdentifier h
            | Some t \<Rightarrow> if truthy (sub (claims t)) then sub (claims t) else homeAccountIdentifier h))"
  by (simp add: handleServerTokenResponse_subClaim_def split: option.splits)

subsection \<open>The validators\<close>

lemma validateCode_mismatch:
  "(validateServerAuthorizationCodeResponse d r cs = Inl StateMismatchError) =
     (\<exists>s1 s2. decodeURIComponent d (toStringJS (hash_state r)) = Inr s1 \<and>
              decodeURIComponent d (toStringJS cs) = Inr s2 \<and> s1 \<noteq> s2)"
  by (auto simp add: validateServerAuthorizationCodeResponse_def throwsFrom_def
      split: sum.splits option.splits if_splits)

lemma validateCode_matched:
  assumes "decodeURIComponent d (toStringJS (hash_state r)) = Inr s"
    and "decodeURIComponent d (toStringJS cs) = Inr s"
  shows "validateServerAuthorizationCodeResponse d r cs =
     (if hasServerError (hash_error r) (hash_error_description r) (hash_suberror r)
      then (if isInteractionRequiredError d (hash_error r) (hash_error_description r) (hash_suberror r)
            then Inl (InteractionRequiredAuthError (hash_error r) (hash_error_description r) (hash_suberror r))
            else Inl (ServerError (hash_error r) (hash_error_description r) (hash_suberror r)))
      else if truthy (hash_client_info r)
      then (case buildClientInfo d (orEmpty (hash_client_info r)) of
              Inl m \<Rightarrow> Inl (Thrown BuildClientInfo m) | Inr _ \<Rightarrow> Inr ())
      else Inr ())"
  using assms
  by (auto simp add: validateServerAuthorizationCodeResponse_def throwsFrom_def truthy_def orEmpty_def
      split: sum.splits option.splits)

lemma validateCode_serverReported:
  assumes "decodeURIComponent d (toStringJS (hash_state r)) = Inr s"
    and "decodeURIComponent d (toStringJS cs) = Inr s"
  shows "(\<exists>e. validateServerAuthorizationCodeResponse d r cs = Inl e \<and> isServerReported e) =
         hasServerError (hash_error r) (hash_error_description r) (hash_suberror r)"
  by (auto simp add: validateCode_matched[OF assms] split: sum.splits)

lemma validateToken_serverReported:
  "(\<exists>e. validateTokenResponse d t = Inl e \<and> isServerReported e) =
     hasServerError (error t) (error_description t) (suberror t)"
  by (auto simp add: validateTokenResponse_def)

subsection \<open>The cache record\<close>

lemma generateCacheRecord_Inr:
  assumes "generateCacheRecord d h r tok a ls rs obo = Inr cr"
  shows "generateEnvironmentFromAuthority d a \<noteq> []
    \<and> generateCacheRecord_idToken d h r tok a (generateEnvironmentFromAuthority d a) obo
         = Inr (idToken cr, account cr)
    \<and> generateCacheRecord_accessToken d h r tok a (generateEnvironmentFromAuthority d a) ls rs obo
         = Inr (accessToken cr)
    \<and> refreshToken cr =
         (if isEmpty (refresh_token r) then None
          else Some (createRefreshTokenEntity (homeAccountIdentifier h) (generateEnvironmentFromAuthority d a)
                 (orEmpty (refresh_token r)) (clientId h) (foci r) obo))
    \<and> appMetadata cr =
         (if isEmpty (foci r) then None
          else Some (createAppMetadataEntity (clientId h) (generateEnvironmentFromAuthority d a) (foci r)))"
  using assms
  by (auto simp add: generateCacheRecord_def Let_def isEmpty_def split: if_splits sum.splits prod.splits)




lemma accessToken_part_slots:
  assumes "generateCacheRecord_accessToken d h r tok a env ls rs obo = Inr x"
  shows "(x \<noteq> None) = (\<not> isEmpty (access_token r))
    \<and> (\<forall>atk. x = Some atk \<longrightarrow>
          (\<exists>ss. generateCacheRecord_scopes d r rs = Inr ss \<and> target atk = printScopes d ss)
          \<and> secret atk = orEmpty (access_token r)
          \<and> tokenType atk = token_type r
          \<and> expiresOn atk = addJS (case ls of None \<Rightarrow> nowSeconds d | Some l \<Rightarrow> toNumber (ts l))
                             (toNumber (expires_in r))
          \<and> extendedExpiresOn atk = addJS (expiresOn atk) (toNumber (ext_expires_in r)))"
  using assms
  by (auto simp add: generateCacheRecord_accessToken_def isEmpty_def orEmpty_def Let_def
      createAccessTokenEntity_def split: option.splits sum.splits if_splits)



lemma prepare_Inr:
  assumes "handleServerTokenResponse_prepare d h r a cn cs rs obo = (Inr (tok, rso, cr), h')"
  shows "handleServerTokenResponse_idToken d r cn = Inr tok
    \<and> handleServerTokenResponse_requestState d cs = Inr rso
    \<and> generateCacheRecord d h' r tok a (case rso of None \<Rightarrow> None | Some st \<Rightarrow> libraryState st) rs obo = Inr cr"
  using assms
  by (auto simp add: handleServerTokenResponse_prepare_def Let_def split: sum.splits)

lemma requestState_step:
  "handleServerTokenResponse_requestState d cs = Inr rso \<Longrightarrow>
     (isEmpty cs \<and> rso = None) \<or> (\<not> isEmpty cs \<and> (\<exists>st. parseRequestState d (orEmpty cs) = Inr st \<and> rso = Some st))"
  by (auto simp add: handleServerTokenResponse_requestState_def throwsFrom_def split: if_splits sum.splits)


subsection \<open>The authentication result and the scenario\<close>

lemma generateAuthenticationResult_Inr:
  assumes "generateAuthenticationResult d cr tok fc rs m u = Inr res"
  shows "(\<forall>atk. accessToken cr = Some atk \<and> tokenType atk = Some (POP d) \<longrightarrow>
            signPopToken d (secret atk) m u = Inr (result_accessToken res))
    \<and> (\<forall>atk. accessToken cr = Some atk \<and> tokenType atk \<noteq> Some (POP d) \<longrightarrow>
            result_accessToken res = secret atk)
    \<and> (account cr = None \<longrightarrow> result_account res = None)
    \<and> (\<forall>acc. account cr = Some acc \<longrightarrow> result_account res = Some (getAccountInfo d acc))
    \<and> (\<forall>atk. accessToken cr = Some atk \<longrightarrow>
            result_expiresOn res = Some (newDate (expiresOn atk))
          \<and> result_extExpiresOn res = Some (newDate (extendedExpiresOn atk)))
    \<and> (\<forall>st. rs = Some st \<longrightarrow> state res = userRequestState st)
    \<and> (rs = None \<longrightarrow> state res = [])
    \<and> fromCache res = fc"
  using assms
  by (auto simp add: generateAuthenticationResult_def generateAuthenticationResult_accessToken_def
      throwsFrom_def split: option.splits sum.splits if_splits prod.splits)

lemma scenarioResponse_sel:
  "access_token scenarioResponse = Some ''AT1''"
  "id_token scenarioResponse = None"
  "refresh_token scenarioResponse = None"
  "client_info scenarioResponse = None"
  "token_type scenarioResponse = Some ''Bearer''"
  "scope scenarioResponse = Some ''User.Read''"
  "expires_in scenarioResponse = Some (Num 3600)"
  "ext_expires_in scenarioResponse = Some (Num 7200)"
  "foci scenarioResponse = None"
  by (simp_all add: scenarioResponse_def emptyTokenResponse_def)

lemma scenario_generateCacheRecord:
  assumes "generateEnvironmentFromAuthority d a \<noteq> []"
    and "ScopeSet_fromString d ''User.Read'' = Inr ss" and "printScopes d ss = ''User.Read''"
    and "homeAccountIdentifier h' = Some []" and "clientId h' = clientId h"
  shows "generateCacheRecord d h' scenarioResponse None a None rs obo = Inr (scenarioRecord d h a obo)"
  using assms
  by (simp add: generateCacheRecord_def generateCacheRecord_idToken_def
      generateCacheRecord_accessToken_def generateCacheRecord_scopes_def scenarioResponse_sel
      scenarioRecord_def Let_def isEmpty_def orEmpty_def throwsFrom_def toNumber_def)

lemma scenario_prepare:
  assumes "generateEnvironmentFromAuthority d a \<noteq> []"
    and "ScopeSet_fromString d ''User.Read'' = Inr ss" and "printScopes d ss = ''User.Read''"
    and "isEmpty cs"
  shows "handleServerTokenResponse_prepare d h scenarioResponse a cn cs rs obo =
           (Inr (None, None, scenarioRecord d h a obo), h\<lparr>homeAccountIdentifier := Some []\<rparr>)"
proof -
  have 1: "handleServerTokenResponse_clientInfo d h scenarioResponse = Inr (h\<lparr>homeAccountIdentifier := Some []\<rparr>)"
    by (simp add: handleServerTokenResponse_clientInfo_def scenarioResponse_sel truthy_def)
  have 2: "handleServerTokenResponse_idToken d scenarioResponse cn = Inr None"
    by (simp add: handleServerTokenResponse_idToken_def scenarioResponse_sel isEmpty_def)
  have 3: "handleServerTokenResponse_subClaim (h\<lparr>homeAccountIdentifier := Some []\<rparr>) None
             = h\<lparr>homeAccountIdentifier := Some []\<rparr>"
    by (simp add: handleServerTokenResponse_subClaim_def)
  have 4: "handleServerTokenResponse_requestState d cs = Inr None"
    using assms(4) by (simp add: handleServerTokenResponse_requestState_def)
  have 5: "generateCacheRecord d (h\<lparr>homeAccountIdentifier := Some []\<rparr>) scenarioResponse None a None rs obo
             = Inr (scenarioRecord d h a obo)"
    by (rule scenario_generateCacheRecord[OF assms(1-3)]) simp_all
  show ?thesis
    by (simp add: handleServerTokenResponse_prepare_def 1 2 3 4 5)
qed

lemma scenario_result:
  assumes "ScopeSet_fromString d ''User.Read'' = Inr ss" and "asArray d ss = [''User.Read'']"
    and "POP d \<noteq> ''Bearer''"
  shows "\<exists>res. generateAuthenticationResult d (scenarioRecord d h a obo) None False None m u = Inr res
           \<and> result_account res = None \<and> scopes res = [''User.Read'']
           \<and> result_accessToken res = ''AT1''"
  using assms
  by (simp add: generateAuthenticationResult_def generateAuthenticationResult_accessToken_def
      scenarioRecord_def createAccessTokenEntity_def throwsFrom_def)

lemma tryBlock_before_identifier:
  "tryBlock_before (h\<lparr>homeAccountIdentifier := x\<rparr>) w = tryBlock_before h w"
  by (simp add: tryBlock_before_def split: option.splits)

lemma tryBlock_save_identifier:
  "tryBlock_save (h\<lparr>homeAccountIdentifier := x\<rparr>) cr w = tryBlock_save h cr w"
  by (simp add: tryBlock_save_def)

lemma tryBlock_guard_identifier:
  "tryBlock_guard (h\<lparr>homeAccountIdentifier := x\<rparr>) cr hr w = tryBlock_guard h cr hr w"
  by (simp add: tryBlock_guard_def tryBlock_save_identifier Let_def split: option.splits sum.splits)

lemma finallyBlock_identifier:
  "finallyBlock (h\<lparr>homeAccountIdentifier := x\<rparr>) c ctx w = finallyBlock h c ctx w"
  by (simp add: finallyBlock_def split: option.splits)

lemma cacheAccess_identifier:
  "cacheAccess (h\<lparr>homeAccountIdentifier := x\<rparr>) cr hr w = cacheAccess h cr hr w"
  by (simp add: cacheAccess_def tryBlock_def tryBlock_before_identifier tryBlock_guard_identifier
      finallyBlock_identifier split: prod.splits completion.splits)

lemma scenario_run:
  assumes env: "generateEnvironmentFromAuthority d a \<noteq> []"
    and ss: "ScopeSet_fromString d ''User.Read'' = Inr ss" "printScopes d ss = ''User.Read''"
      "asArray d ss = [''User.Read'']"
    and pop: "POP d \<noteq> ''Bearer''"
    and cs: "isEmpty cs"
    and store: "fst (cacheAccess h (scenarioRecord d h a obo) False w) = Normal"
  shows "\<exists>res. fst (handleServerTokenResponse d h scenarioResponse a m u cn cs rs obo False w) = Inr (Some res)
           \<and> result_account res = None \<and> scopes res = [''User.Read'']"
proof -
  note prep = scenario_prepare[OF env ss(1) ss(2) cs, of h cn rs obo]
  obtain res where res: "generateAuthenticationResult d (scenarioRecord d h a obo) None False None m u = Inr res"
      "result_account res = None" "scopes res = [''User.Read'']"
    using scenario_result[OF ss(1) ss(3) pop] by blast
  obtain w' where ca: "cacheAccess (h\<lparr>homeAccountIdentifier := Some []\<rparr>) (scenarioRecord d h a obo) False w = (Normal, w')"
    using store by (cases "cacheAccess h (scenarioRecord d h a obo) False w") (simp add: cacheAccess_identifier)
  show ?thesis
    using res by (simp add: handle_prepared[OF prep] ca)
qed

subsection \<open>The sample run\<close>

lemma demoDeps_sel:
  "decodeURIComponent demoDeps = Inr"
  "isInteractionRequiredError demoDeps = (\<lambda>e ed se. e = Some ''interaction_required'')"
  "buildClientInfo demoDeps ''ci'' = Inr \<lparr>uid = Some ''u1'', utid = Some ''t1''\<rparr>"
  "newAuthToken demoDeps ''idt'' = Inr demoIdToken"
  "parseRequestState demoDeps ''st'' =
     Inr \<lparr>userRequestState = ''user'', libraryState = Some \<lparr>ts = Some (Num 1000)\<rparr>\<rparr>"
  "generateEnvironmentFromAuthority demoDeps = canonicalAuthority"
  "nowSeconds demoDeps = Num 5000"
  "ScopeSet_fromString demoDeps ''User.Read'' = Inr [''User.Read'']"
  "printScopes demoDeps [''User.Read''] = ''User.Read''"
  "asArray demoDeps = (\<lambda>xs. xs)"
  "createAccount demoDeps ci a t obo =
     Inr \<lparr>homeAccountId = ''u1.t1'', environment = canonicalAuthority a, realm = orEmpty (tid (claims t))\<rparr>"
  "getAccountInfo demoDeps acc =
     \<lparr>info_homeAccountId = homeAccountId acc, info_environment = environment acc, info_tenantId = realm acc\<rparr>"
  "POP demoDeps = ''pop''"
  by (simp_all add: demoDeps_def)

lemma demoTokenResponse_sel:
  "access_token demoTokenResponse = Some ''AT1''"
  "id_token demoTokenResponse = Some ''idt''"
  "refresh_token demoTokenResponse = Some ''RT1''"
  "client_info demoTokenResponse = Some ''ci''"
  "token_type demoTokenResponse = Some ''Bearer''"
  "scope demoTokenResponse = Some ''User.Read''"
  "expires_in demoTokenResponse = Some (Num 3600)"
  "ext_expires_in demoTokenResponse = Some (Num 7200)"
  "foci demoTokenResponse = None"
  by (simp_all add: demoTokenResponse_def emptyTokenResponse_def)

lemma demoAuthority_sel:
  "canonicalAuthority demoAuthority = ''login.example.com''"
  "authorityType demoAuthority = Default"
  "protocolMode demoAuthority = ''AAD''"
  "tenant demoAuthority = ''t1''"
  by (simp_all add: demoAuthority_def)

lemma demoIdToken_sel:
  "rawToken demoIdToken = ''idt''"
  "sub (claims demoIdToken) = Some ''s1''"
  "oid (claims demoIdToken) = None"
  "tid (claims demoIdToken) = Some ''t1''"
  "nonce (claims demoIdToken) = Some ''n1''"
  by (simp_all add: demoIdToken_def)

lemma demoHandler_sel:
  "clientId (demoHandler p) = ''client''"
  "cacheStorage (demoHandler p) = demoCache"
  "clientInfo (demoHandler p) = None"
  "homeAccountIdentifier (demoHandler p) = None"
  "serializableCache (demoHandler p) = Some (TokenCache 0)"
  "persistencePlugin (demoHandler p) = p"
  by (simp_all add: demoHandler_def newResponseHandler_def)

lemma demoHandlerAfter_sel:
  "clientId (demoHandlerAfter p) = ''client''"
  "cacheStorage (demoHandlerAfter p) = demoCache"
  "homeAccountIdentifier (demoHandlerAfter p) = Some ''u1.t1''"
  "serializableCache (demoHandlerAfter p) = Some (TokenCache 0)"
  "persistencePlugin (demoHandlerAfter p) = p"
  by (simp_all add: demoHandlerAfter_def demoPrepared_def demoHandler_sel)

lemma demoWorld_sel: "store demoWorld = []" "calls demoWorld = []"
  by (simp_all add: demoWorld_def)

lemma demo_clientInfo_any:
  "handleServerTokenResponse_clientInfo demoDeps h demoTokenResponse = Inr (demoPrepared h)"
  by (simp add: handleServerTokenResponse_clientInfo_def demoDeps_sel demoTokenResponse_sel
      demoPrepared_def truthy_def isEmpty_def orEmpty_def throwsFrom_def)

lemma demo_idToken:
  "handleServerTokenResponse_idToken demoDeps demoTokenResponse (Some ''n1'') = Inr (Some demoIdToken)"
  by (simp add: handleServerTokenResponse_idToken_def demoDeps_sel demoTokenResponse_sel
      demoIdToken_sel isEmpty_def orEmpty_def throwsFrom_def)

lemma demo_subClaim_any:
  "handleServerTokenResponse_subClaim (demoPrepared h) tok = demoPrepared h"
  by (simp add: handleServerTokenResponse_subClaim_def demoPrepared_def truthy_def)

lemma demo_generateAccountEntity:
  "generateAccountEntity demoDeps demoTokenResponse demoIdToken demoAuthority None = Inr demoAccount"
  by (simp add: generateAccountEntity_def demoDeps_sel demoTokenResponse_sel demoIdToken_sel
      demoAuthority_sel demoAccount_def isEmpty_def orEmpty_def throwsFrom_def)

lemma demo_generateCacheRecord_any:
  assumes "clientId h = ''client''"
  shows "generateCacheRecord demoDeps (demoPrepared h) demoTokenResponse (Some demoIdToken) demoAuthority
     None None None = Inr demoRecord"
  using assms
  by (simp add: generateCacheRecord_def generateCacheRecord_idToken_def
      generateCacheRecord_accessToken_def generateCacheRecord_scopes_def demo_generateAccountEntity
      demoRecord_def Let_def isEmpty_def orEmpty_def throwsFrom_def toNumber_def roundToDouble_numeral
      demoDeps_sel demoTokenResponse_sel demoIdToken_sel demoAuthority_sel demoPrepared_def)

lemma demo_prepare_any:
  assumes "clientId h = ''client''"
  shows "handleServerTokenResponse_prepare demoDeps h demoTokenResponse demoAuthority
     (Some ''n1'') None None None = (Inr (Some demoIdToken, None, demoRecord), demoPrepared h)"
  by (simp add: handleServerTokenResponse_prepare_def demo_clientInfo_any demo_idToken
      demo_subClaim_any handleServerTokenResponse_requestState_def isEmpty_def
      demo_generateCacheRecord_any[OF assms])



lemma demo_prepare:
  "handleServerTokenResponse_prepare demoDeps (demoHandler p) demoTokenResponse demoAuthority
     (Some ''n1'') None None None = (Inr (Some demoIdToken, None, demoRecord), demoHandlerAfter p)"
  by (simp add: demoHandlerAfter_def demo_prepare_any demoHandler_sel)

lemma demoHandlerOn_sel:
  "persistencePlugin (demoHandlerOn c p) = Some p"
  "serializableCache (demoHandlerOn c p) = Some (TokenCache 0)"
  "cacheStorage (demoHandlerOn c p) = c"
  "clientId (demoHandlerOn c p) = ''client''"
  by (simp_all add: demoHandlerOn_def newResponseHandler_def)

lemma demoCall_prepare:
  "handleServerTokenResponse_prepare demoDeps (demoHandlerOn c p) demoTokenResponse demoAuthority
     (Some ''n1'') None None None
     = (Inr (Some demoIdToken, None, demoRecord), demoPrepared (demoHandlerOn c p))"
  by (rule demo_prepare_any) (rule demoHandlerOn_sel)

lemma demoCall_run:
  "handleServerTokenResponse demoDeps (demoHandlerOn c p) demoTokenResponse demoAuthority None None
     (Some ''n1'') None None None hr w
     = (fst (demoCall c p hr w), fst (snd (demoCall c p hr w)), snd (snd (demoCall c p hr w)))"
  by (simp add: demoCall_def)

lemma demoCall_cacheAccess:
  "demoCall c p hr w =
     (case cacheAccess (demoPrepared (demoHandlerOn c p)) demoRecord hr w of
        (Throw e, w') \<Rightarrow> (Inl e, demoPrepared (demoHandlerOn c p), w')
      | (Return_null, w') \<Rightarrow> (Inr None, demoPrepared (demoHandlerOn c p), w')
      | (Normal, w') \<Rightarrow>
          (case generateAuthenticationResult demoDeps demoRecord (Some demoIdToken) False None None None of
             Inl e \<Rightarrow> (Inl e, demoPrepared (demoHandlerOn c p), w')
           | Inr res \<Rightarrow> (Inr (Some res), demoPrepared (demoHandlerOn c p), w')))"
  unfolding demoCall_def by (rule handle_prepared[OF demoCall_prepare])

lemma demoDeps_states:
  "parseRequestState demoDeps ''st'' =
     Inr \<lparr>userRequestState = ''user'', libraryState = Some \<lparr>ts = Some (Num 1000)\<rparr>\<rparr>"
  "parseRequestState demoDeps ''st1'' =
     Inr \<lparr>userRequestState = ''user'', libraryState = Some \<lparr>ts = Some (Num 1)\<rparr>\<rparr>"
  "parseRequestState demoDeps ''st0'' = Inr \<lparr>userRequestState = ''user'', libraryState = None\<rparr>"
  by (simp_all add: demoDeps_def)

lemma demoExpiringResponse_sel:
  "access_token (demoExpiringResponse e x) = Some ''AT1''"
  "id_token (demoExpiringResponse e x) = Some ''idt''"
  "refresh_token (demoExpiringResponse e x) = Some ''RT1''"
  "client_info (demoExpiringResponse e x) = Some ''ci''"
  "token_type (demoExpiringResponse e x) = Some ''Bearer''"
  "scope (demoExpiringResponse e x) = Some ''User.Read''"
  "expires_in (demoExpiringResponse e x) = Some e"
  "ext_expires_in (demoExpiringResponse e x) = Some x"
  "foci (demoExpiringResponse e x) = None"
  by (simp_all add: demoExpiringResponse_def demoTokenResponse_sel)

lemma demoExpiringResponse_same: "demoExpiringResponse (Num 3600) (Num 7200) = demoTokenResponse"
  by (simp add: demoExpiringResponse_def demoTokenResponse_def)

lemma demo_prepare_state:
  assumes "clientId h = ''client''" and "parseRequestState demoDeps s = Inr st" and "s \<noteq> []"
  shows "handleServerTokenResponse_prepare demoDeps h (demoExpiringResponse e x) demoAuthority
     (Some ''n1'') (Some s) None None =
       (Inr (Some demoIdToken, Some st,
             demoRecordExpiring
               (addJS (case libraryState st of None \<Rightarrow> Num 5000 | Some l \<Rightarrow> toNumber (ts l)) e)
               (addJS (addJS (case libraryState st of None \<Rightarrow> Num 5000 | Some l \<Rightarrow> toNumber (ts l)) e) x)),
        demoPrepared h)"
proof -
  have ci: "handleServerTokenResponse_clientInfo demoDeps h (demoExpiringResponse e x) = Inr (demoPrepared h)"
    by (simp add: handleServerTokenResponse_clientInfo_def demoDeps_sel demoExpiringResponse_sel
        demoPrepared_def truthy_def isEmpty_def orEmpty_def throwsFrom_def)
  have tok: "handleServerTokenResponse_idToken demoDeps (demoExpiringResponse e x) (Some ''n1'')
      = Inr (Some demoIdToken)"
    by (simp add: handleServerTokenResponse_idToken_def demoDeps_sel demoExpiringResponse_sel
        demoIdToken_sel isEmpty_def orEmpty_def throwsFrom_def)
  have st: "handleServerTokenResponse_requestState demoDeps (Some s) = Inr (Some st)"
    using assms(2) assms(3)
    by (simp add: handleServerTokenResponse_requestState_def isEmpty_def orEmpty_def throwsFrom_def)
  have acc: "generateAccountEntity demoDeps (demoExpiringResponse e x) demoIdToken demoAuthority None
      = Inr demoAccount"
    by (simp add: generateAccountEntity_def demoDeps_sel demoExpiringResponse_sel demoIdToken_sel
        demoAuthority_sel demoAccount_def isEmpty_def orEmpty_def throwsFrom_def)
  have gen: "generateCacheRecord demoDeps (demoPrepared h) (demoExpiringResponse e x) (Some demoIdToken)
      demoAuthority (libraryState st) None None =
        Inr (demoRecordExpiring
               (addJS (case libraryState st of None \<Rightarrow> Num 5000 | Some l \<Rightarrow> toNumber (ts l)) e)
               (addJS (addJS (case libraryState st of None \<Rightarrow> Num 5000 | Some l \<Rightarrow> toNumber (ts l)) e) x))"
    using assms(1)
    by (simp add: generateCacheRecord_def generateCacheRecord_idToken_def
        generateCacheRecord_accessToken_def generateCacheRecord_scopes_def acc
        demoRecordExpiring_def demoRecord_def Let_def isEmpty_def orEmpty_def throwsFrom_def toNumber_def
        demoDeps_sel demoExpiringResponse_sel demoIdToken_sel demoAuthority_sel demoPrepared_def)
  show ?thesis
    by (simp add: handleServerTokenResponse_prepare_def ci tok demo_subClaim_any st gen)
qed

lemma demo_before:
  "tryBlock_before (demoHandler (Some (demoPlugin f))) demoWorld =
     (Normal, Some demoContext, \<lparr>store = [], calls = [CalledBeforeCacheAccess demoContext]\<rparr>)"
  by (simp add: tryBlock_before_def Let_def demoHandler_sel demoPlugin_def demoWorld_def demoContext_def)

lemma demo_before_none: "tryBlock_before (demoHandler None) demoWorld = (Normal, None, demoWorld)"
  by (simp add: tryBlock_before_def demoHandler_sel)

lemma demo_lookup:
  "getAccount (cacheStorage (demoHandler p)) [] (generateAccountKey demoAccount) = Inr None"
  by (simp add: demoHandler_sel demoCache_def)

lemma demo_account: "account demoRecord = Some demoAccount"
  by (simp add: demoRecord_def)

lemma demo_cacheAccess_save:
  "cacheAccess (demoHandlerAfter (Some (demoPlugin None))) demoRecord False demoWorld =
     (Normal, \<lparr>store = [demoAccount],
               calls = [CalledBeforeCacheAccess demoContext, CalledSaveCacheRecord demoRecord,
                        CalledAfterCacheAccess demoContext]\<rparr>)"
  by (simp add: cacheAccess_def tryBlock_def tryBlock_before_def tryBlock_guard_def tryBlock_save_def
      finallyBlock_def Let_def demoHandlerAfter_sel demoPlugin_def demoCache_def demoWorld_def
      demoContext_def demo_account)

lemma demo_cacheAccess_absent:
  "cacheAccess (demoHandlerAfter (Some (demoPlugin None))) demoRecord True demoWorld =
     (Return_null, \<lparr>store = [],
               calls = [CalledBeforeCacheAccess demoContext,
                        CalledGetAccount (generateAccountKey demoAccount),
                        CalledAfterCacheAccess demoContext]\<rparr>)"
  by (simp add: cacheAccess_def tryBlock_def tryBlock_before_def tryBlock_guard_def tryBlock_save_def
      finallyBlock_def Let_def demoHandlerAfter_sel demoPlugin_def demoCache_def demoWorld_def
      demoContext_def demo_account)

lemma demo_world_save:
  "snd (snd (handleServerTokenResponse demoDeps (demoHandler (Some (demoPlugin None))) demoTokenResponse
       demoAuthority m u (Some ''n1'') None None None False demoWorld)) =
     \<lparr>store = [demoAccount],
      calls = [CalledBeforeCacheAccess demoContext, CalledSaveCacheRecord demoRecord,
               CalledAfterCacheAccess demoContext]\<rparr>"
  by (simp add: handle_world demo_prepare demo_cacheAccess_save)

lemma demo_world_absent:
  "snd (snd (handleServerTokenResponse demoDeps (demoHandler (Some (demoPlugin None))) demoTokenResponse
       demoAuthority m u (Some ''n1'') None None None True demoWorld)) =
     \<lparr>store = [],
      calls = [CalledBeforeCacheAccess demoContext, CalledGetAccount (generateAccountKey demoAccount),
               CalledAfterCacheAccess demoContext]\<rparr>"
  by (simp add: handle_world demo_prepare demo_cacheAccess_absent)

lemma demo_idToken_any:
  "handleServerTokenResponse_idToken demoDeps (demoTokenResponse\<lparr>client_info := ci\<rparr>) (Some ''n1'')
     = Inr (Some demoIdToken)"
  by (simp add: handleServerTokenResponse_idToken_def demoDeps_sel demoTokenResponse_sel
      demoIdToken_sel isEmpty_def orEmpty_def throwsFrom_def)

lemma demo_scenario_store:
  "fst (cacheAccess (demoHandler None) (scenarioRecord demoDeps (demoHandler None) demoAuthority None)
          False demoWorld) = Normal"
  by (simp add: cacheAccess_def tryBlock_def tryBlock_before_def tryBlock_guard_def tryBlock_save_def
      finallyBlock_def Let_def demoHandler_sel demoCache_def)

lemma demo_pop_result:
  "map_sum id result_accessToken
     (generateAuthenticationResult demoDeps demoPopRecord None False None (Some ''GET'')
        (Some ''https://graph.example.com/me''))
     = Inr ''signed AT1 GET https://graph.example.com/me''"
  by (simp add: generateAuthenticationResult_def generateAuthenticationResult_accessToken_def
      demoPopRecord_def createAccessTokenEntity_def demoDeps_def throwsFrom_def toStringJS_def)


section \<open>The refresh guard\<close>

text \<open>
  C1, as amended. Take a call of \<open>handleServerTokenResponse\<close> with
  \<open>handlingRefreshTokenResponse = true\<close> whose cache record names an account, that has
  reached the store (\<open>beforeCacheAccess\<close>, when a plugin is configured, has returned) and whose
  lookup of the account's key finds no account. Then \<open>saveCacheRecord\<close> is not among the calls
  it makes, and the store it leaves is the one \<open>afterCacheAccess\<close> was given, as that hook
  left it. It returns \<open>null\<close> whenever \<open>afterCacheAccess\<close>, if a plugin and a serializable
  cache are configured, returns without throwing; when that hook throws, its error is what
  the call fails with. With no plugin the call returns \<open>null\<close> and the world differs by the
  recorded lookup only, so the store is as it was.
\<close>

theorem refresh_guard_writes_nothing:
  assumes prep: "handleServerTokenResponse_prepare d h r a cn cs rs obo = (Inr (tok, rso, cr), h')"
    and acct: "account cr = Some acc"
    and before: "tryBlock_before h w = (Normal, ctx, w1)"
    and lookup: "getAccount (cacheStorage h) (store w1) (generateAccountKey acc) = Inr None"
  shows "filter isSaveCall (newCalls w (snd (snd (handleServerTokenResponse d h r a m u cn cs rs obo True w)))) = []
   \<and> ((\<forall>p sc. persistencePlugin h = Some p \<and> serializableCache h = Some sc \<longrightarrow>
          fst (afterCacheAccess p \<lparr>cache = sc, hasChanged = True\<rparr> (store w1)) = None)
        \<longrightarrow> fst (handleServerTokenResponse d h r a m u cn cs rs obo True w) = Inr None)
   \<and> (\<forall>p sc e. persistencePlugin h = Some p \<and> serializableCache h = Some sc \<and>
          fst (afterCacheAccess p \<lparr>cache = sc, hasChanged = True\<rparr> (store w1)) = Some e
        \<longrightarrow> fst (handleServerTokenResponse d h r a m u cn cs rs obo True w) = Inl (Thrown AfterCacheAccess e))
   \<and> (\<forall>p sc. persistencePlugin h = Some p \<and> serializableCache h = Some sc \<longrightarrow>
          store (snd (snd (handleServerTokenResponse d h r a m u cn cs rs obo True w)))
            = snd (afterCacheAccess p \<lparr>cache = sc, hasChanged = True\<rparr> (store w1)))
   \<and> (persistencePlugin h = None \<or> serializableCache h = None \<longrightarrow>
        handleServerTokenResponse d h r a m u cn cs rs obo True w =
          (Inr None, h', w\<lparr>calls := calls w @ [CalledGetAccount (generateAccountKey acc)]\<rparr>))"
proof -
  have cfg: "persistencePlugin h' = persistencePlugin h" "serializableCache h' = serializableCache h"
      "cacheStorage h' = cacheStorage h"
    using prepare_config[of d h r a cn cs rs obo] prep by simp_all
  have before': "tryBlock_before h' w = (Normal, ctx, w1)"
    using before tryBlock_before_cong[OF cfg(1) cfg(2), of w] by simp
  have lookup': "getAccount (cacheStorage h') (store w1) (generateAccountKey acc) = Inr None"
    using lookup cfg by simp
  let ?w2 = "w1\<lparr>calls := calls w1 @ [CalledGetAccount (generateAccountKey acc)]\<rparr>"
  have ca: "cacheAccess h' cr True w = finallyBlock h' Return_null ctx ?w2"
    by (rule cacheAccess_guard_absent[OF acct before' lookup'])
  have run: "handleServerTokenResponse d h r a m u cn cs rs obo True w =
     (case finallyBlock h' Return_null ctx ?w2 of
        (Throw e, w') \<Rightarrow> (Inl e, h', w')
      | (Return_null, w') \<Rightarrow> (Inr None, h', w')
      | (Normal, w') \<Rightarrow>
          (case generateAuthenticationResult d cr tok False rso m u of
             Inl e \<Rightarrow> (Inl e, h', w')
           | Inr res \<Rightarrow> (Inr (Some res), h', w')))"
    by (simp add: handle_prepared[OF prep] ca)
  from before_Normal_cases[OF before]
  show ?thesis
  proof
    assume none: "(persistencePlugin h = None \<or> serializableCache h = None) \<and> ctx = None \<and> w1 = w"
    then show ?thesis
      by (auto simp add: run finallyBlock_none newCalls_def)
  next
    assume "\<exists>p sc. persistencePlugin h = Some p \<and> serializableCache h = Some sc
             \<and> ctx = Some \<lparr>cache = sc, hasChanged = True\<rparr>
             \<and> calls w1 = calls w @ [CalledBeforeCacheAccess \<lparr>cache = sc, hasChanged = True\<rparr>]"
    then obtain p sc where p: "persistencePlugin h = Some p" "serializableCache h = Some sc"
        "ctx = Some \<lparr>cache = sc, hasChanged = True\<rparr>"
        "calls w1 = calls w @ [CalledBeforeCacheAccess \<lparr>cache = sc, hasChanged = True\<rparr>]"
      by blast
    have p': "persistencePlugin h' = Some p" "serializableCache h' = Some sc"
      using p cfg by simp_all
    show ?thesis
      using p
      by (cases "fst (afterCacheAccess p \<lparr>cache = sc, hasChanged = True\<rparr> (store w1))")
         (simp_all add: run finallyBlock_plugin[OF p'] newCalls_def)
  qed
qed

theorem refresh_guard_writes_nothing_witness:
  "fst (handleServerTokenResponse demoDeps (demoHandler (Some (demoPlugin None))) demoTokenResponse
          demoAuthority None None (Some ''n1'') None None None True demoWorld) = Inr None
   \<and> filter isSaveCall (newCalls demoWorld
        (snd (snd (handleServerTokenResponse demoDeps (demoHandler (Some (demoPlugin None)))
           demoTokenResponse demoAuthority None None (Some ''n1'') None None None True demoWorld)))) = []
   \<and> handleServerTokenResponse demoDeps (demoHandler None) demoTokenResponse
          demoAuthority None None (Some ''n1'') None None None True demoWorld
       = (Inr None, demoHandlerAfter None,
          demoWorld\<lparr>calls := [CalledGetAccount (generateAccountKey demoAccount)]\<rparr>)"
proof -
  have store: "store \<lparr>store = [], calls = [CalledBeforeCacheAccess demoContext]\<rparr> = ([] :: AccountEntity list)"
    by simp
  note plugin = refresh_guard_writes_nothing [OF demo_prepare demo_account demo_before,
      of None None None, unfolded store, OF demo_lookup]
  have w: "store demoWorld = []" by (simp add: demoWorld_def)
  note none = refresh_guard_writes_nothing [OF demo_prepare demo_account demo_before_none,
      of None None, unfolded w, OF demo_lookup]
  show ?thesis
    using plugin none
    by (simp add: demoHandler_sel demoPlugin_def demoWorld_def)
qed

text \<open>
  The claim as first stated promises \<open>null\<close> for every such call. It fails when the plugin's
  \<open>afterCacheAccess\<close> throws in the \<open>finally\<close> block: the record names an account, the lookup
  finds none, and the call is rejected with the hook's error.
\<close>

theorem refresh_guard_after_hook_counterexample:
  "fst (handleServerTokenResponse_prepare demoDeps (demoHandler (Some (demoPlugin (Some ''disk full''))))
          demoTokenResponse demoAuthority (Some ''n1'') None None None)
     = Inr (Some demoIdToken, None, demoRecord)
   \<and> account demoRecord = Some demoAccount
   \<and> getAccount (cacheStorage (demoHandler (Some (demoPlugin (Some ''disk full''))))) (store demoWorld)
        (generateAccountKey demoAccount) = Inr None
   \<and> fst (handleServerTokenResponse demoDeps (demoHandler (Some (demoPlugin (Some ''disk full''))))
          demoTokenResponse demoAuthority None None (Some ''n1'') None None None True demoWorld)
       = Inl (Thrown AfterCacheAccess ''disk full'')
   \<and> fst (handleServerTokenResponse demoDeps (demoHandler (Some (demoPlugin (Some ''disk full''))))
          demoTokenResponse demoAuthority None None (Some ''n1'') None None None True demoWorld)
       \<noteq> Inr None"
proof -
  let ?h = "demoHandler (Some (demoPlugin (Some ''disk full'')))"
  let ?h' = "demoHandlerAfter (Some (demoPlugin (Some ''disk full'')))"
  have before: "tryBlock_before ?h' demoWorld =
     (Normal, Some demoContext, \<lparr>store = [], calls = [CalledBeforeCacheAccess demoContext]\<rparr>)"
    by (simp add: tryBlock_before_def Let_def demoHandlerAfter_sel demoPlugin_def demoWorld_def demoContext_def)
  have lookup: "getAccount (cacheStorage ?h')
      (store \<lparr>store = [], calls = [CalledBeforeCacheAccess demoContext]\<rparr>) (generateAccountKey demoAccount) = Inr None"
    by (simp add: demoHandlerAfter_sel demoCache_def)
  have ca: "fst (cacheAccess ?h' demoRecord True demoWorld) = Throw (Thrown AfterCacheAccess ''disk full'')"
    unfolding cacheAccess_guard_absent[OF demo_account before lookup]
    by (simp add: finallyBlock_def Let_def demoHandlerAfter_sel demoPlugin_def)
  have run: "fst (handleServerTokenResponse demoDeps ?h demoTokenResponse demoAuthority None None
       (Some ''n1'') None None None True demoWorld) = Inl (Thrown AfterCacheAccess ''disk full'')"
    using ca
    by (cases "cacheAccess ?h' demoRecord True demoWorld") (simp add: handle_prepared[OF demo_prepare])
  show ?thesis
    by (simp add: run demo_prepare demo_account demoWorld_sel demo_lookup)
qed

section \<open>The plugin hooks\<close>

text \<open>
  C2. Take a call of \<open>handleServerTokenResponse\<close> on a handler with a persistence plugin and
  a serializable cache whose steps before the store section have passed, so that
  \<open>beforeCacheAccess\<close> is called, with the cache context \<open>ctx\<close> built from the serializable
  cache. However the store section is left, \<open>afterCacheAccess\<close> is called with the same
  context, as the last call, on the store as the section left it, and the world after the
  call holds the store it returned; between the two hook calls there is no other hook call.
  The exits are: \<open>beforeCacheAccess\<close> throws; the refresh guard's lookup throws; the refresh
  guard finds no account and returns \<open>null\<close>; the store write throws; the store write
  succeeds (after the guard found the account, or with no guard). What the section ended
  with (the error, \<open>null\<close>, or the authentication result) reaches the caller when
  \<open>afterCacheAccess\<close> returns. When \<open>afterCacheAccess\<close> throws, the caller receives its error
  instead: an error of the store write is then not propagated.
\<close>

theorem hooks_are_paired:
  assumes plugin: "persistencePlugin h = Some p"
    and scache: "serializableCache h = Some sc"
    and prep: "handleServerTokenResponse_prepare d h r a cn cs rs obo = (Inr (tok, rso, cr), h')"
    and ctx: "ctx = \<lparr>cache = sc, hasChanged = True\<rparr>"
    and before: "beforeCacheAccess p ctx (store w) = (eb, sB)"
    and saved: "saveCacheRecord (cacheStorage h) cr sB = (ew, sW)"
    and written: "written = (case ew of
                      Some msg \<Rightarrow> Inl (Thrown SaveCacheRecord msg)
                    | None \<Rightarrow> (case generateAuthenticationResult d cr tok False rso m u of
                                Inl e \<Rightarrow> Inl e
                              | Inr result \<Rightarrow> Inr (Some result)))"
    and run: "handleServerTokenResponse d h r a m u cn cs rs obo hr w = (res, h2, w2)"
  shows "(\<forall>msg. eb = Some msg \<longrightarrow>
            leftThroughHook p ctx w [] sB (Inl (Thrown BeforeCacheAccess msg)) res w2)
    \<and> (\<forall>acc msg. eb = None \<and> hr \<and> account cr = Some acc
            \<and> getAccount (cacheStorage h) sB (generateAccountKey acc) = Inl msg \<longrightarrow>
            leftThroughHook p ctx w [CalledGetAccount (generateAccountKey acc)] sB
              (Inl (Thrown GetAccount msg)) res w2)
    \<and> (\<forall>acc. eb = None \<and> hr \<and> account cr = Some acc
            \<and> getAccount (cacheStorage h) sB (generateAccountKey acc) = Inr None \<longrightarrow>
            leftThroughHook p ctx w [CalledGetAccount (generateAccountKey acc)] sB (Inr None) res w2)
    \<and> (\<forall>acc found. eb = None \<and> hr \<and> account cr = Some acc
            \<and> getAccount (cacheStorage h) sB (generateAccountKey acc) = Inr (Some found) \<longrightarrow>
            leftThroughHook p ctx w
              [CalledGetAccount (generateAccountKey acc), CalledSaveCacheRecord cr] sW written res w2)
    \<and> (eb = None \<and> (\<not> hr \<or> account cr = None) \<longrightarrow>
            leftThroughHook p ctx w [CalledSaveCacheRecord cr] sW written res w2)"
proof -
  have cfg: "persistencePlugin h' = Some p" "serializableCache h' = Some sc"
      "cacheStorage h' = cacheStorage h"
    using prepare_config[of d h r a cn cs rs obo] plugin scache unfolding prep by simp_all
  have tb: "tryBlock_before h' w =
     ((case eb of None \<Rightarrow> Normal | Some msg \<Rightarrow> Throw (Thrown BeforeCacheAccess msg)), Some ctx,
      \<lparr>store = sB, calls = calls w @ [CalledBeforeCacheAccess ctx]\<rparr>)"
    using tryBlock_before_plugin[OF cfg(1) cfg(2), of w] before unfolding ctx by simp
  note fb = finallyBlock_plugin[OF cfg(1) cfg(2)]
  have sv: "tryBlock_save h' cr \<lparr>store = sB, calls = cl\<rparr> =
     ((case ew of None \<Rightarrow> Normal | Some msg \<Rightarrow> Throw (Thrown SaveCacheRecord msg)),
      \<lparr>store = sW, calls = cl @ [CalledSaveCacheRecord cr]\<rparr>)" for cl
    using saved by (simp add: tryBlock_save_def cfg(3) Let_def split: option.splits)
  have out: "(res, h2, w2) =
     (case cacheAccess h' cr hr w of
        (Throw e, w') \<Rightarrow> (Inl e, h', w')
      | (Return_null, w') \<Rightarrow> (Inr None, h', w')
      | (Normal, w') \<Rightarrow>
          (case generateAuthenticationResult d cr tok False rso m u of
             Inl e \<Rightarrow> (Inl e, h', w')
           | Inr res \<Rightarrow> (Inr (Some res), h', w')))"
    using handle_prepared[OF prep, of m u hr w] run by simp
  have 1: "leftThroughHook p ctx w [] sB (Inl (Thrown BeforeCacheAccess msg)) res w2"
    if "eb = Some msg" for msg
    using out that
    by (simp add: leftThroughHook_def cacheAccess_def tryBlock_def tb fb split: option.splits)
  have 2: "leftThroughHook p ctx w [CalledGetAccount (generateAccountKey acc)] sB
              (Inl (Thrown GetAccount msg)) res w2"
    if "eb = None \<and> hr \<and> account cr = Some acc
            \<and> getAccount (cacheStorage h) sB (generateAccountKey acc) = Inl msg" for acc msg
    using out that
    by (simp add: leftThroughHook_def cacheAccess_def tryBlock_def tb fb tryBlock_guard_def cfg(3)
        Let_def split: option.splits)
  have 3: "leftThroughHook p ctx w [CalledGetAccount (generateAccountKey acc)] sB (Inr None) res w2"
    if "eb = None \<and> hr \<and> account cr = Some acc
            \<and> getAccount (cacheStorage h) sB (generateAccountKey acc) = Inr None" for acc
    using out that
    by (simp add: leftThroughHook_def cacheAccess_def tryBlock_def tb fb tryBlock_guard_def cfg(3)
        Let_def split: option.splits)
  have 4: "leftThroughHook p ctx w
              [CalledGetAccount (generateAccountKey acc), CalledSaveCacheRecord cr] sW written res w2"
    if "eb = None \<and> hr \<and> account cr = Some acc
            \<and> getAccount (cacheStorage h) sB (generateAccountKey acc) = Inr (Some found)" for acc found
    using out that
    by (simp add: leftThroughHook_def cacheAccess_def tryBlock_def tb fb tryBlock_guard_def cfg(3)
        sv written Let_def split: option.splits sum.splits)
  have 5: "leftThroughHook p ctx w [CalledSaveCacheRecord cr] sW written res w2"
    if "eb = None \<and> (\<not> hr \<or> account cr = None)"
  proof -
    have g: "(if hr then account cr else None) = None" using that by auto
    show ?thesis
      using out that
      by (simp add: leftThroughHook_def cacheAccess_def tryBlock_def tb fb tryBlock_guard_def g
          sv written Let_def split: option.splits sum.splits)
  qed
  show ?thesis
    using 1 2 3 4 5 by blast
qed

theorem hooks_are_paired_witness:
  "fst (demoCall demoCache demoLockedPlugin False demoWorld) = Inl (Thrown BeforeCacheAccess ''locked'')
   \<and> calls (snd (snd (demoCall demoCache demoLockedPlugin False demoWorld)))
       = [CalledBeforeCacheAccess demoContext, CalledAfterCacheAccess demoContext]
   \<and> fst (demoCall demoOfflineCache (demoPlugin None) True demoWorld)
       = Inl (Thrown GetAccount ''store offline'')
   \<and> calls (snd (snd (demoCall demoOfflineCache (demoPlugin None) True demoWorld)))
       = [CalledBeforeCacheAccess demoContext, CalledGetAccount (generateAccountKey demoAccount),
          CalledAfterCacheAccess demoContext]
   \<and> fst (demoCall demoCache (demoPlugin None) True demoWorld) = Inr None
   \<and> calls (snd (snd (demoCall demoCache (demoPlugin None) True demoWorld)))
       = [CalledBeforeCacheAccess demoContext, CalledGetAccount (generateAccountKey demoAccount),
          CalledAfterCacheAccess demoContext]
   \<and> snd (snd (demoCall demoCache (demoPlugin None) True \<lparr>store = [demoAccount], calls = []\<rparr>))
       = \<lparr>store = [demoAccount, demoAccount],
          calls = [CalledBeforeCacheAccess demoContext, CalledGetAccount (generateAccountKey demoAccount),
                   CalledSaveCacheRecord demoRecord, CalledAfterCacheAccess demoContext]\<rparr>
   \<and> fst (demoCall demoFullCache (demoPlugin None) False demoWorld)
       = Inl (Thrown SaveCacheRecord ''quota exceeded'')
   \<and> calls (snd (snd (demoCall demoFullCache (demoPlugin None) False demoWorld)))
       = [CalledBeforeCacheAccess demoContext, CalledSaveCacheRecord demoRecord,
          CalledAfterCacheAccess demoContext]
   \<and> snd (snd (demoCall demoCache (demoPlugin None) False demoWorld))
       = \<lparr>store = [demoAccount],
          calls = [CalledBeforeCacheAccess demoContext, CalledSaveCacheRecord demoRecord,
                   CalledAfterCacheAccess demoContext]\<rparr>
   \<and> fst (demoCall demoCache (demoPlugin (Some ''disk full'')) True demoWorld)
       = Inl (Thrown AfterCacheAccess ''disk full'')"
proof -
  have lk: "beforeCacheAccess demoLockedPlugin demoContext (store demoWorld) = (Some ''locked'', [])"
    by (simp add: demoLockedPlugin_def demoWorld_sel)
  have bf: "beforeCacheAccess (demoPlugin f) demoContext (store demoWorld) = (None, [])" for f
    by (simp add: demoPlugin_def demoWorld_sel)
  have bf1: "beforeCacheAccess (demoPlugin None) demoContext (store \<lparr>store = [demoAccount], calls = []\<rparr>)
      = (None, [demoAccount])"
    by (simp add: demoPlugin_def)
  have sv: "saveCacheRecord (cacheStorage (demoHandlerOn demoCache p)) demoRecord s = (None, demoAccount # s)"
    for p s
    by (simp add: demoHandlerOn_sel demoCache_def demo_account)
  have svf: "saveCacheRecord (cacheStorage (demoHandlerOn demoFullCache p)) demoRecord []
      = (Some ''quota exceeded'', [])" for p
    by (simp add: demoHandlerOn_sel demoFullCache_def)
  have svo: "saveCacheRecord (cacheStorage (demoHandlerOn demoOfflineCache p)) demoRecord [] = (None, [])"
    for p
    by (simp add: demoHandlerOn_sel demoOfflineCache_def)
  have af: "afterCacheAccess (demoPlugin f) c s = (f, s)" for f c s
    by (simp add: demoPlugin_def)
  have afl: "afterCacheAccess demoLockedPlugin c s = (None, s)" for c s
    by (simp add: demoLockedPlugin_def)
  have 1: "leftThroughHook demoLockedPlugin demoContext demoWorld [] []
      (Inl (Thrown BeforeCacheAccess ''locked''))
      (fst (demoCall demoCache demoLockedPlugin False demoWorld))
      (snd (snd (demoCall demoCache demoLockedPlugin False demoWorld)))"
    using hooks_are_paired [OF demoHandlerOn_sel(1) demoHandlerOn_sel(2) demoCall_prepare
        demoContext_def lk sv refl demoCall_run]
    by simp
  have 2: "leftThroughHook (demoPlugin None) demoContext demoWorld
      [CalledGetAccount (generateAccountKey demoAccount)] []
      (Inl (Thrown GetAccount ''store offline''))
      (fst (demoCall demoOfflineCache (demoPlugin None) True demoWorld))
      (snd (snd (demoCall demoOfflineCache (demoPlugin None) True demoWorld)))"
    using hooks_are_paired [OF demoHandlerOn_sel(1) demoHandlerOn_sel(2) demoCall_prepare
        demoContext_def bf svo refl demoCall_run[where hr = True]]
    by (simp add: demo_account demoHandlerOn_sel demoOfflineCache_def)
  have 3: "leftThroughHook (demoPlugin None) demoContext demoWorld
      [CalledGetAccount (generateAccountKey demoAccount)] [] (Inr None)
      (fst (demoCall demoCache (demoPlugin None) True demoWorld))
      (snd (snd (demoCall demoCache (demoPlugin None) True demoWorld)))"
    using hooks_are_paired [OF demoHandlerOn_sel(1) demoHandlerOn_sel(2) demoCall_prepare
        demoContext_def bf sv refl demoCall_run[where hr = True]]
    by (simp add: demo_account demoHandlerOn_sel demoCache_def)
  have 4: "leftThroughHook (demoPlugin None) demoContext \<lparr>store = [demoAccount], calls = []\<rparr>
      [CalledGetAccount (generateAccountKey demoAccount), CalledSaveCacheRecord demoRecord]
      [demoAccount, demoAccount]
      (case generateAuthenticationResult demoDeps demoRecord (Some demoIdToken) False None None None of
         Inl e \<Rightarrow> Inl e | Inr result \<Rightarrow> Inr (Some result))
      (fst (demoCall demoCache (demoPlugin None) True \<lparr>store = [demoAccount], calls = []\<rparr>))
      (snd (snd (demoCall demoCache (demoPlugin None) True \<lparr>store = [demoAccount], calls = []\<rparr>)))"
    using hooks_are_paired [OF demoHandlerOn_sel(1) demoHandlerOn_sel(2) demoCall_prepare
        demoContext_def bf1 sv refl demoCall_run[where hr = True]]
    by (simp add: demo_account demoHandlerOn_sel demoCache_def)
  have 5: "leftThroughHook (demoPlugin None) demoContext demoWorld [CalledSaveCacheRecord demoRecord] []
      (Inl (Thrown SaveCacheRecord ''quota exceeded''))
      (fst (demoCall demoFullCache (demoPlugin None) False demoWorld))
      (snd (snd (demoCall demoFullCache (demoPlugin None) False demoWorld)))"
    using hooks_are_paired [OF demoHandlerOn_sel(1) demoHandlerOn_sel(2) demoCall_prepare
        demoContext_def bf svf refl demoCall_run[where hr = False]]
    by simp
  have 6: "leftThroughHook (demoPlugin None) demoContext demoWorld [CalledSaveCacheRecord demoRecord]
      [demoAccount]
      (case generateAuthenticationResult demoDeps demoRecord (Some demoIdToken) False None None None of
         Inl e \<Rightarrow> Inl e | Inr result \<Rightarrow> Inr (Some result))
      (fst (demoCall demoCache (demoPlugin None) False demoWorld))
      (snd (snd (demoCall demoCache (demoPlugin None) False demoWorld)))"
    using hooks_are_paired [OF demoHandlerOn_sel(1) demoHandlerOn_sel(2) demoCall_prepare
        demoContext_def bf sv refl demoCall_run[where hr = False]]
    by simp
  have 7: "leftThroughHook (demoPlugin (Some ''disk full'')) demoContext demoWorld
      [CalledGetAccount (generateAccountKey demoAccount)] [] (Inr None)
      (fst (demoCall demoCache (demoPlugin (Some ''disk full'')) True demoWorld))
      (snd (snd (demoCall demoCache (demoPlugin (Some ''disk full'')) True demoWorld)))"
    using hooks_are_paired [OF demoHandlerOn_sel(1) demoHandlerOn_sel(2) demoCall_prepare
        demoContext_def bf sv refl demoCall_run[where hr = True]]
    by (simp add: demo_account demoHandlerOn_sel demoCache_def)
  show ?thesis
    using 1 2 3 4 5 6 7
    by (simp add: leftThroughHook_def af afl demoWorld_sel)
qed

text \<open>
  The store write fails and \<open>afterCacheAccess\<close> fails as well: the caller receives the error
  of \<open>afterCacheAccess\<close>, not the error of the write.
\<close>

theorem store_write_error_lost_counterexample:
  "fst (saveCacheRecord demoFullCache demoRecord (store demoWorld)) = Some ''quota exceeded''
   \<and> calls (snd (snd (demoCall demoFullCache (demoPlugin (Some ''disk full'')) False demoWorld)))
       = [CalledBeforeCacheAccess demoContext, CalledSaveCacheRecord demoRecord,
          CalledAfterCacheAccess demoContext]
   \<and> fst (demoCall demoFullCache (demoPlugin (Some ''disk full'')) False demoWorld)
       = Inl (Thrown AfterCacheAccess ''disk full'')
   \<and> fst (demoCall demoFullCache (demoPlugin (Some ''disk full'')) False demoWorld)
       \<noteq> Inl (Thrown SaveCacheRecord ''quota exceeded'')"
  by (simp add: demoCall_cacheAccess cacheAccess_def tryBlock_def tryBlock_before_def
      tryBlock_guard_def tryBlock_save_def finallyBlock_def Let_def demoPrepared_def
      demoHandlerOn_def newResponseHandler_def demoPlugin_def demoFullCache_def demoWorld_def
      demoContext_def)

section \<open>Validation of server responses\<close>

text \<open>
  C3. \<open>validateServerAuthorizationCodeResponse\<close> fails with \<open>StateMismatchError\<close> exactly when
  the two states decode and their decoded texts differ, whatever the error fields and
  \<open>client_info\<close> hold (so the check comes before error classification and before
  \<open>client_info\<close> is decoded). Once the decoded states agree, and in \<open>validateTokenResponse\<close>
  always, a server-reported error is raised iff at least one of \<open>error\<close>,
  \<open>error_description\<close>, \<open>suberror\<close> is present (defined and not empty, which is what the
  source tests): \<open>InteractionRequiredAuthError\<close> when the three match an
  interaction-required signature, \<open>ServerError\<close> otherwise. With none of the three,
  \<open>validateTokenResponse\<close> returns normally.
\<close>

theorem validation_errors:
  "(validateServerAuthorizationCodeResponse d r cs = Inl StateMismatchError) =
     (\<exists>s1 s2. decodeURIComponent d (toStringJS (hash_state r)) = Inr s1 \<and>
              decodeURIComponent d (toStringJS cs) = Inr s2 \<and> s1 \<noteq> s2)
   \<and> (\<forall>s. decodeURIComponent d (toStringJS (hash_state r)) = Inr s \<and>
           decodeURIComponent d (toStringJS cs) = Inr s \<longrightarrow>
         (\<exists>e. validateServerAuthorizationCodeResponse d r cs = Inl e \<and> isServerReported e) =
           hasServerError (hash_error r) (hash_error_description r) (hash_suberror r)
         \<and> (hasServerError (hash_error r) (hash_error_description r) (hash_suberror r) \<longrightarrow>
              validateServerAuthorizationCodeResponse d r cs =
                Inl (if isInteractionRequiredError d (hash_error r) (hash_error_description r) (hash_suberror r)
                     then InteractionRequiredAuthError (hash_error r) (hash_error_description r) (hash_suberror r)
                     else ServerError (hash_error r) (hash_error_description r) (hash_suberror r))))
   \<and> (\<exists>e. validateTokenResponse d t = Inl e \<and> isServerReported e) =
        hasServerError (error t) (error_description t) (suberror t)
   \<and> (hasServerError (error t) (error_description t) (suberror t) \<longrightarrow>
        validateTokenResponse d t =
          Inl (if isInteractionRequiredError d (error t) (error_description t) (suberror t)
               then InteractionRequiredAuthError (error t) (error_description t) (suberror t)
               else ServerError (error t) (Some (errString t)) None))
   \<and> (\<not> hasServerError (error t) (error_description t) (suberror t) \<longrightarrow>
        validateTokenResponse d t = Inr ())"
proof (intro conjI allI impI)
  show "(validateServerAuthorizationCodeResponse d r cs = Inl StateMismatchError) =
     (\<exists>s1 s2. decodeURIComponent d (toStringJS (hash_state r)) = Inr s1 \<and>
              decodeURIComponent d (toStringJS cs) = Inr s2 \<and> s1 \<noteq> s2)"
    by (rule validateCode_mismatch)
next
  fix s
  assume "decodeURIComponent d (toStringJS (hash_state r)) = Inr s \<and>
          decodeURIComponent d (toStringJS cs) = Inr s"
  then show "(\<exists>e. validateServerAuthorizationCodeResponse d r cs = Inl e \<and> isServerReported e) =
           hasServerError (hash_error r) (hash_error_description r) (hash_suberror r)"
    by (simp add: validateCode_serverReported)
next
  fix s
  assume "decodeURIComponent d (toStringJS (hash_state r)) = Inr s \<and>
          decodeURIComponent d (toStringJS cs) = Inr s"
    and "hasServerError (hash_error r) (hash_error_description r) (hash_suberror r)"
  then show "validateServerAuthorizationCodeResponse d r cs =
                Inl (if isInteractionRequiredError d (hash_error r) (hash_error_description r) (hash_suberror r)
                     then InteractionRequiredAuthError (hash_error r) (hash_error_description r) (hash_suberror r)
                     else ServerError (hash_error r) (hash_error_description r) (hash_suberror r))"
    by (simp add: validateCode_matched)
next
  show "(\<exists>e. validateTokenResponse d t = Inl e \<and> isServerReported e) =
        hasServerError (error t) (error_description t) (suberror t)"
    by (rule validateToken_serverReported)
next
  assume "hasServerError (error t) (error_description t) (suberror t)"
  then show "validateTokenResponse d t =
          Inl (if isInteractionRequiredError d (error t) (error_description t) (suberror t)
               then InteractionRequiredAuthError (error t) (error_description t) (suberror t)
               else ServerError (error t) (Some (errString t)) None)"
    by (simp add: validateTokenResponse_def)
next
  assume "\<not> hasServerError (error t) (error_description t) (suberror t)"
  then show "validateTokenResponse d t = Inr ()"
    by (simp add: validateTokenResponse_def)
qed

theorem validation_errors_witness:
  "validateServerAuthorizationCodeResponse demoDeps (demoCodeResponse ''abc'' None) (Some ''xyz'')
     = Inl StateMismatchError
   \<and> validateServerAuthorizationCodeResponse demoDeps (demoCodeResponse ''abc'' (Some ''access_denied'')) (Some ''abc'')
     = Inl (ServerError (Some ''access_denied'') None None)
   \<and> validateTokenResponse demoDeps (emptyTokenResponse\<lparr>error := Some ''interaction_required''\<rparr>)
     = Inl (InteractionRequiredAuthError (Some ''interaction_required'') None None)
   \<and> validateTokenResponse demoDeps emptyTokenResponse = Inr ()"
  using validation_errors [of demoDeps "demoCodeResponse ''abc'' None" "Some ''xyz''"
      "emptyTokenResponse\<lparr>error := Some ''interaction_required''\<rparr>"]
    validation_errors [of demoDeps "demoCodeResponse ''abc'' (Some ''access_denied'')" "Some ''abc''"
      emptyTokenResponse]
  by (simp add: demoDeps_def demoCodeResponse_def emptyTokenResponse_def toStringJS_def
      hasServerError_def truthy_def)

section \<open>Validation before the cache\<close>



section \<open>The home account identifier\<close>

text \<open>
  What holds of the identifier the handler holds after \<open>handleServerTokenResponse\<close>, however
  the call ends. When \<open>client_info\<close> is present and decodes to a non-empty \<open>uid\<close> and a
  non-empty \<open>utid\<close>, it is \<open>uid.utid\<close>. When the handler holds no identifier after the
  \<open>client_info\<close> step (its field is undefined or empty, which is what line 144 tests) and the
  identity token was decoded and has a \<open>sub\<close> claim, it is that claim; this is so for every
  response without \<open>client_info\<close>, and for a response whose \<open>client_info\<close> gives an empty
  \<open>uid\<close> or \<open>utid\<close> when the handler held no identifier before the call. When \<open>client_info\<close>
  is absent and there is no decoded identity token with a \<open>sub\<close> claim, it is the empty
  string.
\<close>

lemma home_account_identifier_rules:
  "(truthy (client_info r) \<and> buildClientInfo d (orEmpty (client_info r)) = Inr ci
      \<and> \<not> isEmpty (uid ci) \<and> \<not> isEmpty (utid ci)
      \<longrightarrow> homeAccountIdentifier (fst (snd (handleServerTokenResponse d h r a m u cn cs rs obo hr w)))
            = Some (orEmpty (uid ci) @ ''.'' @ orEmpty (utid ci)))
   \<and> (handleServerTokenResponse_clientInfo d h r = Inr h1 \<and> \<not> truthy (homeAccountIdentifier h1)
      \<and> handleServerTokenResponse_idToken d r cn = Inr (Some t) \<and> truthy (sub (claims t))
      \<longrightarrow> homeAccountIdentifier (fst (snd (handleServerTokenResponse d h r a m u cn cs rs obo hr w)))
            = sub (claims t))
   \<and> (\<not> truthy (client_info r)
      \<and> handleServerTokenResponse_idToken d r cn = Inr (Some t) \<and> truthy (sub (claims t))
      \<longrightarrow> homeAccountIdentifier (fst (snd (handleServerTokenResponse d h r a m u cn cs rs obo hr w)))
            = sub (claims t))
   \<and> (\<not> truthy (homeAccountIdentifier h) \<and> truthy (client_info r)
      \<and> buildClientInfo d (orEmpty (client_info r)) = Inr ci \<and> (isEmpty (uid ci) \<or> isEmpty (utid ci))
      \<and> handleServerTokenResponse_idToken d r cn = Inr (Some t) \<and> truthy (sub (claims t))
      \<longrightarrow> homeAccountIdentifier (fst (snd (handleServerTokenResponse d h r a m u cn cs rs obo hr w)))
            = sub (claims t))
   \<and> (truthy (homeAccountIdentifier h) \<and> truthy (client_info r)
      \<and> buildClientInfo d (orEmpty (client_info r)) = Inr ci \<and> (isEmpty (uid ci) \<or> isEmpty (utid ci))
      \<longrightarrow> homeAccountIdentifier (fst (snd (handleServerTokenResponse d h r a m u cn cs rs obo hr w)))
            = homeAccountIdentifier h)
   \<and> (\<not> truthy (client_info r)
      \<and> (\<forall>t'. handleServerTokenResponse_idToken d r cn = Inr (Some t') \<longrightarrow> \<not> truthy (sub (claims t')))
      \<longrightarrow> homeAccountIdentifier (fst (snd (handleServerTokenResponse d h r a m u cn cs rs obo hr w)))
            = Some [])"
proof (intro conjI impI)
  assume "truthy (client_info r) \<and> buildClientInfo d (orEmpty (client_info r)) = Inr ci
      \<and> \<not> isEmpty (uid ci) \<and> \<not> isEmpty (utid ci)"
  then show "homeAccountIdentifier (fst (snd (handleServerTokenResponse d h r a m u cn cs rs obo hr w)))
            = Some (orEmpty (uid ci) @ ''.'' @ orEmpty (utid ci))"
    by (simp add: handle_identifier clientInfo_step_decoded subClaim_step_identifier truthy_def
        split: sum.splits)
next
  assume "handleServerTokenResponse_clientInfo d h r = Inr h1 \<and> \<not> truthy (homeAccountIdentifier h1)
      \<and> handleServerTokenResponse_idToken d r cn = Inr (Some t) \<and> truthy (sub (claims t))"
  then show "homeAccountIdentifier (fst (snd (handleServerTokenResponse d h r a m u cn cs rs obo hr w)))
            = sub (claims t)"
    by (simp add: handle_identifier subClaim_step_identifier)
next
  assume "\<not> truthy (client_info r)
      \<and> handleServerTokenResponse_idToken d r cn = Inr (Some t) \<and> truthy (sub (claims t))"
  then show "homeAccountIdentifier (fst (snd (handleServerTokenResponse d h r a m u cn cs rs obo hr w)))
            = sub (claims t)"
    by (simp add: handle_identifier clientInfo_step_absent subClaim_step_identifier truthy_def)
next
  assume "\<not> truthy (homeAccountIdentifier h) \<and> truthy (client_info r)
      \<and> buildClientInfo d (orEmpty (client_info r)) = Inr ci \<and> (isEmpty (uid ci) \<or> isEmpty (utid ci))
      \<and> handleServerTokenResponse_idToken d r cn = Inr (Some t) \<and> truthy (sub (claims t))"
  then show "homeAccountIdentifier (fst (snd (handleServerTokenResponse d h r a m u cn cs rs obo hr w)))
            = sub (claims t)"
    by (auto simp add: handle_identifier clientInfo_step_decoded subClaim_step_identifier)
next
  assume "truthy (homeAccountIdentifier h) \<and> truthy (client_info r)
      \<and> buildClientInfo d (orEmpty (client_info r)) = Inr ci \<and> (isEmpty (uid ci) \<or> isEmpty (utid ci))"
  then show "homeAccountIdentifier (fst (snd (handleServerTokenResponse d h r a m u cn cs rs obo hr w)))
            = homeAccountIdentifier h"
    by (auto simp add: handle_identifier clientInfo_step_decoded subClaim_step_identifier
        split: sum.splits)
next
  assume "\<not> truthy (client_info r)
      \<and> (\<forall>t'. handleServerTokenResponse_idToken d r cn = Inr (Some t') \<longrightarrow> \<not> truthy (sub (claims t')))"
  then show "homeAccountIdentifier (fst (snd (handleServerTokenResponse d h r a m u cn cs rs obo hr w)))
            = Some []"
    by (auto simp add: handle_identifier clientInfo_step_absent subClaim_step_identifier truthy_def
        split: sum.splits option.splits)
qed

text \<open>
  C5. The identifier does not fall back to the \<open>sub\<close> claim for every response that gives no
  \<open>client_info\<close>-derived identifier. Lines 115-119 assign the field when \<open>uid\<close> and \<open>utid\<close>
  are both non-empty and leave it as it is otherwise, while the branch for an absent
  \<open>client_info\<close> (line 122) resets it. Take a new handler and hand it the sample response:
  it holds \<open>u1.t1\<close>. Hand the same handler a second response whose \<open>client_info\<close> decodes to
  an empty \<open>uid\<close> and whose identity token has the \<open>sub\<close> claim \<open>s1\<close>: the call succeeds and
  the handler still holds \<open>u1.t1\<close>, the identifier of the earlier response, and caches the
  tokens of the second response under it. A new handler given the second response holds
  \<open>s1\<close>, and so does the used handler given a response without \<open>client_info\<close>.
\<close>

theorem home_account_identifier_not_reset:
  "homeAccountIdentifier (demoHandler None) = None
   \<and> homeAccountIdentifier (fst (snd demoFirstCall)) = Some ''u1.t1''
   \<and> client_info demoEmptyUidResponse = Some ''ci0''
   \<and> buildClientInfo demoDeps ''ci0'' = Inr \<lparr>uid = Some [], utid = Some ''t1''\<rparr>
   \<and> handleServerTokenResponse_idToken demoDeps demoEmptyUidResponse (Some ''n1'') = Inr (Some demoIdToken)
   \<and> sub (claims demoIdToken) = Some ''s1''
   \<and> homeAccountIdentifier (fst (snd (demoSecondCall demoEmptyUidResponse))) = Some ''u1.t1''
   \<and> map_option at_homeAccountId
        (preparedAccessToken (handleServerTokenResponse_prepare demoDeps (fst (snd demoFirstCall))
           demoEmptyUidResponse demoAuthority (Some ''n1'') None None None))
       = Some (Some ''u1.t1'')
   \<and> homeAccountIdentifier (fst (snd (handleServerTokenResponse demoDeps (demoHandler None)
        demoEmptyUidResponse demoAuthority None None (Some ''n1'') None None None False demoWorld)))
       = Some ''s1''
   \<and> homeAccountIdentifier (fst (snd (demoSecondCall (demoTokenResponse\<lparr>client_info := None\<rparr>))))
       = Some ''s1''"
proof -
  have first: "fst (snd demoFirstCall) = demoHandlerAfter None"
    by (simp add: demoFirstCall_def handle_handler demo_prepare)
  have ci0: "handleServerTokenResponse_clientInfo demoDeps h demoEmptyUidResponse
        = Inr (h\<lparr>clientInfo := Some \<lparr>uid = Some [], utid = Some ''t1''\<rparr>\<rparr>)" for h :: "(AccountEntity list) ResponseHandler"
    by (simp add: handleServerTokenResponse_clientInfo_def demoEmptyUidResponse_def demoDeps_def
        truthy_def isEmpty_def orEmpty_def throwsFrom_def)
  have none: "handleServerTokenResponse_clientInfo demoDeps h (demoTokenResponse\<lparr>client_info := None\<rparr>)
        = Inr (h\<lparr>homeAccountIdentifier := Some []\<rparr>)" for h :: "(AccountEntity list) ResponseHandler"
    by (simp add: handleServerTokenResponse_clientInfo_def truthy_def)
  have tok: "handleServerTokenResponse_idToken demoDeps demoEmptyUidResponse (Some ''n1'')
        = Inr (Some demoIdToken)"
    unfolding demoEmptyUidResponse_def by (rule demo_idToken_any)
  have sel: "access_token demoEmptyUidResponse = Some ''AT1''"
      "id_token demoEmptyUidResponse = Some ''idt''"
      "refresh_token demoEmptyUidResponse = Some ''RT1''"
      "client_info demoEmptyUidResponse = Some ''ci0''"
      "token_type demoEmptyUidResponse = Some ''Bearer''"
      "scope demoEmptyUidResponse = Some ''User.Read''"
      "expires_in demoEmptyUidResponse = Some (Num 3600)"
      "ext_expires_in demoEmptyUidResponse = Some (Num 7200)"
      "foci demoEmptyUidResponse = None"
    by (simp_all add: demoEmptyUidResponse_def demoTokenResponse_sel)
  have 1: "homeAccountIdentifier (fst (snd demoFirstCall)) = Some ''u1.t1''"
    by (simp add: first demoHandlerAfter_sel)
  have 2: "homeAccountIdentifier (fst (snd (demoSecondCall demoEmptyUidResponse))) = Some ''u1.t1''"
    by (simp add: demoSecondCall_def handle_identifier first ci0 tok subClaim_step_identifier
        demoHandlerAfter_sel truthy_def)
  have 3: "homeAccountIdentifier (fst (snd (handleServerTokenResponse demoDeps (demoHandler None)
        demoEmptyUidResponse demoAuthority None None (Some ''n1'') None None None False demoWorld)))
       = Some ''s1''"
    by (simp add: handle_identifier ci0 tok subClaim_step_identifier demoHandler_sel demoIdToken_sel
        truthy_def)
  have 4: "homeAccountIdentifier (fst (snd (demoSecondCall (demoTokenResponse\<lparr>client_info := None\<rparr>))))
       = Some ''s1''"
    by (simp add: demoSecondCall_def handle_identifier none demo_idToken_any subClaim_step_identifier
        demoIdToken_sel truthy_def)
  have 5: "map_option at_homeAccountId
        (preparedAccessToken (handleServerTokenResponse_prepare demoDeps (fst (snd demoFirstCall))
           demoEmptyUidResponse demoAuthority (Some ''n1'') None None None))
       = Some (Some ''u1.t1'')"
    by (simp add: first preparedAccessToken_def handleServerTokenResponse_prepare_def ci0 tok
        handleServerTokenResponse_subClaim_def handleServerTokenResponse_requestState_def
        generateCacheRecord_def generateCacheRecord_idToken_def generateCacheRecord_accessToken_def
        generateCacheRecord_scopes_def generateAccountEntity_def createAccessTokenEntity_def
        demoHandlerAfter_sel sel demoDeps_sel
        demoAuthority_sel demoIdToken_sel Let_def isEmpty_def orEmpty_def truthy_def throwsFrom_def)
  show ?thesis
    using 1 2 3 4 5 tok
    by (simp add: demoHandler_sel sel demoDeps_def demoIdToken_sel)
qed

section \<open>Expiration of the access token\<close>

text \<open>
  C6. Take a response with an access token for which \<open>handleServerTokenResponse\<close> has built
  its cache record. The baseline timestamp is the timestamp of the library state when the
  caller's state was parsed and holds one, and the current time in seconds when no state
  was supplied or the parsed state holds no library state. The cached access token's
  \<open>expiresOn\<close> is the sum, as JavaScript computes it, of the baseline and \<open>expires_in\<close>, and
  its \<open>extendedExpiresOn\<close> is the sum of that value and \<open>ext_expires_in\<close>: each is the double
  nearest to the exact sum. When the baseline \<open>b\<close>, \<open>expires_in\<close> and \<open>ext_expires_in\<close> are
  integers, non-negative or not, and \<open>b + expires_in\<close> and \<open>b + expires_in + ext_expires_in\<close>
  are below \<open>2^53\<close> in magnitude, the two cached values are exactly these two sums. Beyond
  that range they need not be, as the last theorem of this section shows.
\<close>

theorem access_token_expiration:
  assumes prep: "handleServerTokenResponse_prepare d h r a cn cs rs obo = (Inr (tok, rso, cr), h')"
    and atk: "\<not> isEmpty (access_token r)"
  shows "\<exists>t. accessToken cr = Some t
    \<and> extendedExpiresOn t = addJS (expiresOn t) (toNumber (ext_expires_in r))
    \<and> (\<forall>st l. \<not> isEmpty cs \<and> parseRequestState d (orEmpty cs) = Inr st \<and> libraryState st = Some l \<longrightarrow>
          expiresOn t = addJS (toNumber (ts l)) (toNumber (expires_in r))
          \<and> (\<forall>b e x. ts l = Some (Num (of_int b)) \<and> expires_in r = Some (Num (of_int e))
                \<and> ext_expires_in r = Some (Num (of_int x))
                \<and> \<bar>b + e\<bar> < 2 ^ 53 \<and> \<bar>b + e + x\<bar> < 2 ^ 53 \<longrightarrow>
                expiresOn t = Num (of_int (b + e))
                \<and> extendedExpiresOn t = Num (of_int (b + e + x))))
    \<and> (isEmpty cs \<or> (\<exists>st. parseRequestState d (orEmpty cs) = Inr st \<and> libraryState st = None) \<longrightarrow>
          expiresOn t = addJS (nowSeconds d) (toNumber (expires_in r))
          \<and> (\<forall>b e x. nowSeconds d = Num (of_int b) \<and> expires_in r = Some (Num (of_int e))
                \<and> ext_expires_in r = Some (Num (of_int x))
                \<and> \<bar>b + e\<bar> < 2 ^ 53 \<and> \<bar>b + e + x\<bar> < 2 ^ 53 \<longrightarrow>
                expiresOn t = Num (of_int (b + e))
                \<and> extendedExpiresOn t = Num (of_int (b + e + x))))"
proof -
  from prepare_Inr[OF prep]
  have rs: "handleServerTokenResponse_requestState d cs = Inr rso"
    and gen: "generateCacheRecord d h' r tok a (case rso of None \<Rightarrow> None | Some st \<Rightarrow> libraryState st) rs obo = Inr cr"
    by simp_all
  from generateCacheRecord_Inr[OF gen]
  have part: "generateCacheRecord_accessToken d h' r tok a (generateEnvironmentFromAuthority d a)
      (case rso of None \<Rightarrow> None | Some st \<Rightarrow> libraryState st) rs obo = Inr (accessToken cr)"
    by simp
  from accessToken_part_slots[OF part] atk
  obtain t where t: "accessToken cr = Some t"
    and exp: "expiresOn t = addJS (case (case rso of None \<Rightarrow> None | Some st \<Rightarrow> libraryState st) of
                 None \<Rightarrow> nowSeconds d | Some l \<Rightarrow> toNumber (ts l)) (toNumber (expires_in r))"
    and ext: "extendedExpiresOn t = addJS (expiresOn t) (toNumber (ext_expires_in r))"
    by auto
  have exact: "expiresOn t = Num (of_int (b + e)) \<and> extendedExpiresOn t = Num (of_int (b + e + x))"
    if "expiresOn t = addJS (Num (of_int b)) (toNumber (expires_in r))"
      and "expires_in r = Some (Num (of_int e))" and "ext_expires_in r = Some (Num (of_int x))"
      and "\<bar>b + e\<bar> < 2 ^ 53" and "\<bar>b + e + x\<bar> < 2 ^ 53" for b e x
  proof -
    have 1: "expiresOn t = Num (of_int (b + e))"
      using that(1) that(2) addJS_of_int[OF that(4)] by (simp add: toNumber_def)
    have 2: "extendedExpiresOn t = Num (of_int (b + e + x))"
      using ext that(3) addJS_of_int[OF that(5)] unfolding 1 by (simp add: toNumber_def)
    from 1 2 show ?thesis by simp
  qed
  have state: "expiresOn t = addJS (toNumber (ts l)) (toNumber (expires_in r))"
    if "\<not> isEmpty cs \<and> parseRequestState d (orEmpty cs) = Inr st \<and> libraryState st = Some l" for st l
    using requestState_step[OF rs] that exp by auto
  have clock: "expiresOn t = addJS (nowSeconds d) (toNumber (expires_in r))"
    if "isEmpty cs \<or> (\<exists>st. parseRequestState d (orEmpty cs) = Inr st \<and> libraryState st = None)"
    using requestState_step[OF rs] that exp by auto
  show ?thesis
  proof (intro exI conjI allI impI)
    show "accessToken cr = Some t" by (rule t)
    show "extendedExpiresOn t = addJS (expiresOn t) (toNumber (ext_expires_in r))" by (rule ext)
  next
    fix st l
    assume a: "\<not> isEmpty cs \<and> parseRequestState d (orEmpty cs) = Inr st \<and> libraryState st = Some l"
    show "expiresOn t = addJS (toNumber (ts l)) (toNumber (expires_in r))" by (rule state[OF a])
    fix b e x
    assume b: "ts l = Some (Num (of_int b)) \<and> expires_in r = Some (Num (of_int e))
                \<and> ext_expires_in r = Some (Num (of_int x))
                \<and> \<bar>b + e\<bar> < 2 ^ 53 \<and> \<bar>b + e + x\<bar> < 2 ^ 53"
    have "expiresOn t = addJS (Num (of_int b)) (toNumber (expires_in r))"
      using state[OF a] b by (simp add: toNumber_def)
    from exact[OF this] b
    show "expiresOn t = Num (of_int (b + e))" and "extendedExpiresOn t = Num (of_int (b + e + x))"
      by blast+
  next
    assume a: "isEmpty cs \<or> (\<exists>st. parseRequestState d (orEmpty cs) = Inr st \<and> libraryState st = None)"
    show "expiresOn t = addJS (nowSeconds d) (toNumber (expires_in r))" by (rule clock[OF a])
    fix b e x
    assume b: "nowSeconds d = Num (of_int b) \<and> expires_in r = Some (Num (of_int e))
                \<and> ext_expires_in r = Some (Num (of_int x))
                \<and> \<bar>b + e\<bar> < 2 ^ 53 \<and> \<bar>b + e + x\<bar> < 2 ^ 53"
    have "expiresOn t = addJS (Num (of_int b)) (toNumber (expires_in r))"
      using clock[OF a] b by simp
    from exact[OF this] b
    show "expiresOn t = Num (of_int (b + e))" and "extendedExpiresOn t = Num (of_int (b + e + x))"
      by blast+
  qed
qed

theorem access_token_expiration_witness:
  "map_option expiresOn (preparedAccessToken (handleServerTokenResponse_prepare demoDeps
       (demoHandler None) demoTokenResponse demoAuthority (Some ''n1'') None None None))
     = Some (Num 8600)
   \<and> map_option extendedExpiresOn (preparedAccessToken (handleServerTokenResponse_prepare demoDeps
       (demoHandler None) demoTokenResponse demoAuthority (Some ''n1'') None None None))
     = Some (Num 15800)
   \<and> map_option expiresOn (preparedAccessToken (handleServerTokenResponse_prepare demoDeps
       (demoHandler None) demoTokenResponse demoAuthority (Some ''n1'') (Some ''st'') None None))
     = Some (Num 4600)
   \<and> map_option extendedExpiresOn (preparedAccessToken (handleServerTokenResponse_prepare demoDeps
       (demoHandler None) demoTokenResponse demoAuthority (Some ''n1'') (Some ''st'') None None))
     = Some (Num 11800)
   \<and> map_option expiresOn (preparedAccessToken (handleServerTokenResponse_prepare demoDeps
       (demoHandler None) demoTokenResponse demoAuthority (Some ''n1'') (Some ''st0'') None None))
     = Some (Num 8600)
   \<and> map_option extendedExpiresOn (preparedAccessToken (handleServerTokenResponse_prepare demoDeps
       (demoHandler None) demoTokenResponse demoAuthority (Some ''n1'') (Some ''st0'') None None))
     = Some (Num 15800)"
proof -
  have atk: "\<not> isEmpty (access_token demoTokenResponse)"
    by (simp add: demoTokenResponse_sel isEmpty_def)
  have c: "clientId (demoHandler None) = ''client''" by (simp add: demoHandler_sel)
  have e: "expires_in demoTokenResponse = Some (Num (of_int 3600))"
    and x: "ext_expires_in demoTokenResponse = Some (Num (of_int 7200))"
    and now: "nowSeconds demoDeps = Num (of_int 5000)"
    by (simp_all add: demoTokenResponse_sel demoDeps_sel)
  obtain cr1 where p1: "handleServerTokenResponse_prepare demoDeps (demoHandler None) demoTokenResponse
      demoAuthority (Some ''n1'') None None None = (Inr (Some demoIdToken, None, cr1), demoHandlerAfter None)"
    using demo_prepare by blast
  obtain st2 cr2 where p2: "handleServerTokenResponse_prepare demoDeps (demoHandler None) demoTokenResponse
      demoAuthority (Some ''n1'') (Some ''st'') None None
        = (Inr (Some demoIdToken, Some st2, cr2), demoPrepared (demoHandler None))"
    using demo_prepare_state[OF c demoDeps_states(1), of "Num 3600" "Num 7200"]
    by (simp add: demoExpiringResponse_same)
  obtain st3 cr3 where p3: "handleServerTokenResponse_prepare demoDeps (demoHandler None) demoTokenResponse
      demoAuthority (Some ''n1'') (Some ''st0'') None None
        = (Inr (Some demoIdToken, Some st3, cr3), demoPrepared (demoHandler None))"
    using demo_prepare_state[OF c demoDeps_states(3), of "Num 3600" "Num 7200"]
    by (simp add: demoExpiringResponse_same)
  from access_token_expiration [OF p1 atk]
  obtain t1 where t1: "accessToken cr1 = Some t1"
    and k1: "\<And>b e x. nowSeconds demoDeps = Num (of_int b) \<Longrightarrow>
        expires_in demoTokenResponse = Some (Num (of_int e)) \<Longrightarrow>
        ext_expires_in demoTokenResponse = Some (Num (of_int x)) \<Longrightarrow>
        \<bar>b + e\<bar> < 2 ^ 53 \<Longrightarrow> \<bar>b + e + x\<bar> < 2 ^ 53 \<Longrightarrow>
        expiresOn t1 = Num (of_int (b + e)) \<and> extendedExpiresOn t1 = Num (of_int (b + e + x))"
    unfolding isEmpty_def by (simp only: option.case simp_thms) blast
  from access_token_expiration [OF p2 atk]
  obtain t2 where t2: "accessToken cr2 = Some t2"
    and k2: "\<And>st l b e x. parseRequestState demoDeps ''st'' = Inr st \<Longrightarrow> libraryState st = Some l \<Longrightarrow>
        ts l = Some (Num (of_int b)) \<Longrightarrow>
        expires_in demoTokenResponse = Some (Num (of_int e)) \<Longrightarrow>
        ext_expires_in demoTokenResponse = Some (Num (of_int x)) \<Longrightarrow>
        \<bar>b + e\<bar> < 2 ^ 53 \<Longrightarrow> \<bar>b + e + x\<bar> < 2 ^ 53 \<Longrightarrow>
        expiresOn t2 = Num (of_int (b + e)) \<and> extendedExpiresOn t2 = Num (of_int (b + e + x))"
    unfolding isEmpty_def orEmpty_def by (simp only: option.case simp_thms list.distinct not_False_eq_True) blast
  from access_token_expiration [OF p3 atk]
  obtain t3 where t3: "accessToken cr3 = Some t3"
    and k3: "\<And>st b e x. parseRequestState demoDeps ''st0'' = Inr st \<Longrightarrow> libraryState st = None \<Longrightarrow>
        nowSeconds demoDeps = Num (of_int b) \<Longrightarrow>
        expires_in demoTokenResponse = Some (Num (of_int e)) \<Longrightarrow>
        ext_expires_in demoTokenResponse = Some (Num (of_int x)) \<Longrightarrow>
        \<bar>b + e\<bar> < 2 ^ 53 \<Longrightarrow> \<bar>b + e + x\<bar> < 2 ^ 53 \<Longrightarrow>
        expiresOn t3 = Num (of_int (b + e)) \<and> extendedExpiresOn t3 = Num (of_int (b + e + x))"
    unfolding isEmpty_def orEmpty_def by (simp only: option.case simp_thms list.distinct not_False_eq_True) blast
  have ts: "ts \<lparr>ts = Some (Num 1000)\<rparr> = Some (Num (of_int 1000))" by simp
  have v1: "expiresOn t1 = Num 8600 \<and> extendedExpiresOn t1 = Num 15800"
    using k1[OF now e x] by simp
  have v2: "expiresOn t2 = Num 4600 \<and> extendedExpiresOn t2 = Num 11800"
    using k2[OF demoDeps_states(1) _ ts e x] by simp
  have v3: "expiresOn t3 = Num 8600 \<and> extendedExpiresOn t3 = Num 15800"
    using k3[OF demoDeps_states(3) _ now e x] by simp
  show ?thesis
    using t1 t2 t3 v1 v2 v3 by (simp add: preparedAccessToken_def p1 p2 p3)
qed

text \<open>
  A token that outlives the range of exact integers: the request was sent at second 1 and
  the response gives \<open>expires_in = 2^53\<close> and \<open>ext_expires_in = 1\<close>. Both cached values are
  \<open>2^53\<close>, not \<open>2^53 + 1\<close> and \<open>2^53 + 2\<close>.
\<close>

theorem access_token_expiration_counterexample:
  "parseRequestState demoDeps ''st1''
     = Inr \<lparr>userRequestState = ''user'', libraryState = Some \<lparr>ts = Some (Num 1)\<rparr>\<rparr>
   \<and> map_option expiresOn (preparedAccessToken (handleServerTokenResponse_prepare demoDeps
       (demoHandler None) (demoExpiringResponse (Num 9007199254740992) (Num 1)) demoAuthority
       (Some ''n1'') (Some ''st1'') None None))
     = Some (Num 9007199254740992)
   \<and> map_option expiresOn (preparedAccessToken (handleServerTokenResponse_prepare demoDeps
       (demoHandler None) (demoExpiringResponse (Num 9007199254740992) (Num 1)) demoAuthority
       (Some ''n1'') (Some ''st1'') None None))
     \<noteq> Some (Num (1 + 9007199254740992))
   \<and> map_option extendedExpiresOn (preparedAccessToken (handleServerTokenResponse_prepare demoDeps
       (demoHandler None) (demoExpiringResponse (Num 9007199254740992) (Num 1)) demoAuthority
       (Some ''n1'') (Some ''st1'') None None))
     = Some (Num 9007199254740992)
   \<and> map_option extendedExpiresOn (preparedAccessToken (handleServerTokenResponse_prepare demoDeps
       (demoHandler None) (demoExpiringResponse (Num 9007199254740992) (Num 1)) demoAuthority
       (Some ''n1'') (Some ''st1'') None None))
     \<noteq> Some (Num (1 + 9007199254740992 + 1))"
  by (simp add: demo_prepare_state[OF demoHandler_sel(1) demoDeps_states(2)] preparedAccessToken_def
      demoRecordExpiring_def createAccessTokenEntity_def toNumber_def roundToDouble_above_safe_range
      demoDeps_states)

section \<open>The slots of the cache record\<close>



section \<open>The authentication result\<close>

text \<open>
  C8. When \<open>generateAuthenticationResult\<close> returns a result: its access token is what
  \<open>signPopToken\<close> gives, in this call, for the cached secret and the given resource-request
  method and URI when the cached token's type is the PoP scheme, and the cached secret itself
  for any other type; its account is \<open>null\<close> when the record holds no account and the
  account's info when it holds one; \<open>expiresOn\<close> and \<open>extExpiresOn\<close> are the dates of the
  cached epoch seconds; its state is the user request state of the given request state, and
  empty when none is given. And the scenario: for the response with
  \<open>access_token\<close> AT1, \<open>expires_in\<close> 3600, \<open>ext_expires_in\<close> 7200, \<open>scope\<close> User.Read and
  \<open>token_type\<close> Bearer, no \<open>id_token\<close> and no \<open>client_info\<close>, handled with
  \<open>handlingRefreshTokenResponse = false\<close> and no cached state, on an authority with an
  environment, with a scope set that reads and prints User.Read as that one scope, and a store
  section that completes: the record built has an access token entity and nothing else, and
  the call returns a result whose account is \<open>null\<close> and whose scopes are \<open>[User.Read]\<close>.
\<close>

theorem authentication_result:
  "(\<forall>res. generateAuthenticationResult d cr tok fc rso m u = Inr res \<longrightarrow>
       (\<forall>atk. accessToken cr = Some atk \<and> tokenType atk = Some (POP d) \<longrightarrow>
            signPopToken d (secret atk) m u = Inr (result_accessToken res))
     \<and> (\<forall>atk. accessToken cr = Some atk \<and> tokenType atk \<noteq> Some (POP d) \<longrightarrow>
            result_accessToken res = secret atk)
     \<and> (account cr = None \<longrightarrow> result_account res = None)
     \<and> (\<forall>acc. account cr = Some acc \<longrightarrow> result_account res = Some (getAccountInfo d acc))
     \<and> (\<forall>atk. accessToken cr = Some atk \<longrightarrow>
            result_expiresOn res = Some (newDate (expiresOn atk))
          \<and> result_extExpiresOn res = Some (newDate (extendedExpiresOn atk)))
     \<and> (\<forall>st. rso = Some st \<longrightarrow> state res = userRequestState st)
     \<and> (rso = None \<longrightarrow> state res = []))
   \<and> (generateEnvironmentFromAuthority d a \<noteq> []
        \<and> ScopeSet_fromString d ''User.Read'' = Inr ss \<and> printScopes d ss = ''User.Read''
        \<and> asArray d ss = [''User.Read''] \<and> POP d \<noteq> ''Bearer'' \<and> isEmpty cs
        \<and> fst (cacheAccess h (scenarioRecord d h a obo) False w) = Normal
      \<longrightarrow> fst (handleServerTokenResponse_prepare d h scenarioResponse a cn cs rs obo)
             = Inr (None, None, scenarioRecord d h a obo)
        \<and> account (scenarioRecord d h a obo) = None \<and> idToken (scenarioRecord d h a obo) = None
        \<and> accessToken (scenarioRecord d h a obo) \<noteq> None
        \<and> refreshToken (scenarioRecord d h a obo) = None \<and> appMetadata (scenarioRecord d h a obo) = None
        \<and> (\<exists>res. fst (handleServerTokenResponse d h scenarioResponse a m u cn cs rs obo False w)
                    = Inr (Some res)
                 \<and> result_account res = None \<and> scopes res = [''User.Read'']))"
proof (intro conjI allI impI)
  fix res assume gen: "generateAuthenticationResult d cr tok fc rso m u = Inr res"
  note r = generateAuthenticationResult_Inr[OF gen]
  {
    fix atk assume "accessToken cr = Some atk \<and> tokenType atk = Some (POP d)"
    then show "signPopToken d (secret atk) m u = Inr (result_accessToken res)" using r by blast
  }
  {
    fix atk assume "accessToken cr = Some atk \<and> tokenType atk \<noteq> Some (POP d)"
    then show "result_accessToken res = secret atk" using r by blast
  }
  {
    assume "account cr = None"
    then show "result_account res = None" using r by blast
  }
  {
    fix acc assume "account cr = Some acc"
    then show "result_account res = Some (getAccountInfo d acc)" using r by blast
  }
  {
    fix atk assume atk: "accessToken cr = Some atk"
    then show "result_expiresOn res = Some (newDate (expiresOn atk))" using r by blast
    from atk show "result_extExpiresOn res = Some (newDate (extendedExpiresOn atk))" using r by blast
  }
  {
    fix st assume "rso = Some st"
    then show "state res = userRequestState st" using r by blast
  }
  {
    assume "rso = None"
    then show "state res = []" using r by blast
  }
next
  assume a: "generateEnvironmentFromAuthority d a \<noteq> []
        \<and> ScopeSet_fromString d ''User.Read'' = Inr ss \<and> printScopes d ss = ''User.Read''
        \<and> asArray d ss = [''User.Read''] \<and> POP d \<noteq> ''Bearer'' \<and> isEmpty cs
        \<and> fst (cacheAccess h (scenarioRecord d h a obo) False w) = Normal"
  then show "fst (handleServerTokenResponse_prepare d h scenarioResponse a cn cs rs obo)
             = Inr (None, None, scenarioRecord d h a obo)"
    by (simp add: scenario_prepare)
  show "account (scenarioRecord d h a obo) = None" "idToken (scenarioRecord d h a obo) = None"
    "accessToken (scenarioRecord d h a obo) \<noteq> None" "refreshToken (scenarioRecord d h a obo) = None"
    "appMetadata (scenarioRecord d h a obo) = None"
    by (simp_all add: scenarioRecord_def)
  from a have env: "generateEnvironmentFromAuthority d a \<noteq> []"
    and ss: "ScopeSet_fromString d ''User.Read'' = Inr ss" "printScopes d ss = ''User.Read''"
      "asArray d ss = [''User.Read'']"
    and pop: "POP d \<noteq> ''Bearer''" and cs: "isEmpty cs"
    and store: "fst (cacheAccess h (scenarioRecord d h a obo) False w) = Normal"
    by blast+
  show "\<exists>res. fst (handleServerTokenResponse d h scenarioResponse a m u cn cs rs obo False w)
                    = Inr (Some res)
                 \<and> result_account res = None \<and> scopes res = [''User.Read'']"
    by (rule scenario_run[OF env ss pop cs store])
qed

theorem authentication_result_witness:
  "(\<exists>res. fst (handleServerTokenResponse demoDeps (demoHandler None) scenarioResponse demoAuthority
               None None None None None None False demoWorld) = Inr (Some res)
          \<and> result_account res = None \<and> scopes res = [''User.Read''])
   \<and> (\<exists>res. generateAuthenticationResult demoDeps demoPopRecord None False None (Some ''GET'')
               (Some ''https://graph.example.com/me'') = Inr res
          \<and> signPopToken demoDeps ''AT1'' (Some ''GET'') (Some ''https://graph.example.com/me'')
               = Inr (result_accessToken res)
          \<and> result_expiresOn res = Some (Date 8600000))"
proof -
  note s = authentication_result [where d = demoDeps and a = demoAuthority and ss = "[''User.Read'']"
      and cs = None and h = "demoHandler None" and obo = None and w = demoWorld and cn = None
      and rs = None and m = None and u = None and cr = demoPopRecord and tok = None and fc = False
      and rso = None]
  have 1: "\<exists>res. fst (handleServerTokenResponse demoDeps (demoHandler None) scenarioResponse demoAuthority
               None None None None None None False demoWorld) = Inr (Some res)
          \<and> result_account res = None \<and> scopes res = [''User.Read'']"
    using s by (simp add: demoDeps_sel demoAuthority_sel isEmpty_def demo_scenario_store)
  obtain res where res: "generateAuthenticationResult demoDeps demoPopRecord None False None (Some ''GET'')
               (Some ''https://graph.example.com/me'') = Inr res"
    using demo_pop_result
    by (cases "generateAuthenticationResult demoDeps demoPopRecord None False None (Some ''GET'')
               (Some ''https://graph.example.com/me'')") auto
  note p = authentication_result [where d = demoDeps and cr = demoPopRecord and tok = None
      and fc = False and rso = None and m = "Some ''GET''" and u = "Some ''https://graph.example.com/me''"
      and a = demoAuthority and ss = "[''User.Read'']" and cs = None and h = "demoHandler None"
      and obo = None and w = demoWorld and cn = None and rs = None]
  have 2: "signPopToken demoDeps ''AT1'' (Some ''GET'') (Some ''https://graph.example.com/me'')
               = Inr (result_accessToken res) \<and> result_expiresOn res = Some (Date 8600000)"
    using p res
    by (simp add: demoPopRecord_def createAccessTokenEntity_def demoDeps_sel newDate_def timeClip_def
        roundToDouble_numeral)
  show ?thesis using 1 2 res by blast
qed

section \<open>BaseClient\<close>

text \<open>
  C9. When the POST has returned a response, \<open>executePostToTokenEndpoint\<close> hands back that
  response. With a telemetry manager configured it clears the telemetry cache (one call of
  \<open>clearTelemetryCache\<close>, the telemetry state replaced by what that call gives) iff the
  status is below 500 and is not 429. With a status of 500 or more, or 429, the telemetry
  state is left as it was; so it is when no telemetry manager is configured.
\<close>

theorem telemetry_clear_rule:
  assumes "sendPostRequest this thumbprint tokenEndpoint \<lparr>body = queryString, headers = hdrs\<rparr> = Inr response"
  shows "fst (executePostToTokenEndpoint this tokenEndpoint queryString hdrs thumbprint w) = Inr response
    \<and> (\<forall>manager. serverTelemetryManager this = Some manager \<longrightarrow>
         (snd (executePostToTokenEndpoint this tokenEndpoint queryString hdrs thumbprint w)
            = w\<lparr>telemetry := clearTelemetryCache manager (telemetry w), clearCalls := Suc (clearCalls w)\<rparr>)
          = (status response < 500 \<and> status response \<noteq> 429)
       \<and> (clearCalls (snd (executePostToTokenEndpoint this tokenEndpoint queryString hdrs thumbprint w))
            = Suc (clearCalls w))
          = (status response < 500 \<and> status response \<noteq> 429))
    \<and> (status response \<ge> 500 \<or> status response = 429 \<longrightarrow>
         snd (executePostToTokenEndpoint this tokenEndpoint queryString hdrs thumbprint w) = w)
    \<and> (serverTelemetryManager this = None \<longrightarrow>
         snd (executePostToTokenEndpoint this tokenEndpoint queryString hdrs thumbprint w) = w)"
  using assms
  apply (simp add: executePostToTokenEndpoint_def throwsFrom_def)
  apply (cases w)
  apply (auto split: option.splits)
  done

theorem telemetry_clear_rule_witness:
  "snd (executePostToTokenEndpoint (demoClient 429) ''https://login.example.com/token'' ''grant_type=x''
          Map.empty demoThumbprint \<lparr>telemetry = [''e1''], clearCalls = 0\<rparr>)
     = \<lparr>telemetry = [''e1''], clearCalls = 0\<rparr>
   \<and> snd (executePostToTokenEndpoint (demoClient 200) ''https://login.example.com/token'' ''grant_type=x''
          Map.empty demoThumbprint \<lparr>telemetry = [''e1''], clearCalls = 0\<rparr>)
     = \<lparr>telemetry = [], clearCalls = 1\<rparr>
   \<and> snd (executePostToTokenEndpoint (demoClient 503) ''https://login.example.com/token'' ''grant_type=x''
          Map.empty demoThumbprint \<lparr>telemetry = [''e1''], clearCalls = 0\<rparr>)
     = \<lparr>telemetry = [''e1''], clearCalls = 0\<rparr>"
  using telemetry_clear_rule [of "demoClient 429" demoThumbprint "''https://login.example.com/token''"
      "''grant_type=x''" Map.empty "\<lparr>status = 429, response_body = emptyTokenResponse\<rparr>"
      "\<lparr>telemetry = [''e1''], clearCalls = 0\<rparr>"]
    telemetry_clear_rule [of "demoClient 200" demoThumbprint "''https://login.example.com/token''"
      "''grant_type=x''" Map.empty "\<lparr>status = 200, response_body = emptyTokenResponse\<rparr>"
      "\<lparr>telemetry = [''e1''], clearCalls = 0\<rparr>"]
    telemetry_clear_rule [of "demoClient 503" demoThumbprint "''https://login.example.com/token''"
      "''grant_type=x''" Map.empty "\<lparr>status = 503, response_body = emptyTokenResponse\<rparr>"
      "\<lparr>telemetry = [''e1''], clearCalls = 0\<rparr>"]
  by (simp add: demoClient_def)

text \<open>
  C10. For every client, whatever its library information and whether or not a telemetry
  manager is configured, \<open>createDefaultTokenRequestHeaders\<close> returns the record with the one
  entry \<open>CONTENT_TYPE\<close>, set to \<open>URL_FORM_CONTENT_TYPE\<close>. No other name has an entry: not the
  four client-identification names, which are the names \<open>createDefaultLibraryHeaders\<close> fills
  and which this function does not call, and not the two telemetry names.
\<close>

theorem token_request_headers:
  "createDefaultTokenRequestHeaders this =
     Map.empty(CONTENT_TYPE (constants this) \<mapsto> URL_FORM_CONTENT_TYPE (constants this))
   \<and> dom (createDefaultTokenRequestHeaders this) = {CONTENT_TYPE (constants this)}
   \<and> (\<forall>k. k \<noteq> CONTENT_TYPE (constants this) \<longrightarrow> createDefaultTokenRequestHeaders this k = None)
   \<and> createDefaultTokenRequestHeaders (this\<lparr>serverTelemetryManager := tm\<rparr>)
       = createDefaultTokenRequestHeaders this
   \<and> createDefaultTokenRequestHeaders (this\<lparr>libraryInfo := li\<rparr>)
       = createDefaultTokenRequestHeaders this
   \<and> dom (createDefaultLibraryHeaders this) =
       {X_CLIENT_SKU (constants this), X_CLIENT_VER (constants this), X_CLIENT_OS (constants this),
        X_CLIENT_CPU (constants this)}"
  by (auto simp add: createDefaultTokenRequestHeaders_def createDefaultLibraryHeaders_def)

theorem token_request_headers_witness:
  "createDefaultTokenRequestHeaders (demoClient 200) ''Content-Type'' = Some ''application/x-www-form-urlencoded''
   \<and> createDefaultTokenRequestHeaders (demoClient 200) ''x-client-SKU'' = None
   \<and> createDefaultTokenRequestHeaders (demoClient 200) ''x-client-VER'' = None
   \<and> createDefaultTokenRequestHeaders (demoClient 200) ''x-client-OS'' = None
   \<and> createDefaultTokenRequestHeaders (demoClient 200) ''x-client-CPU'' = None
   \<and> createDefaultTokenRequestHeaders (demoClient 200) ''x-client-current-telemetry'' = None
   \<and> createDefaultTokenRequestHeaders (demoClient 200) ''x-client-last-telemetry'' = None
   \<and> createDefaultLibraryHeaders (demoClient 200) ''x-client-SKU'' = Some ''msal.js.common''"
  using token_request_headers [of "demoClient 200"]
  by (simp add: demoClient_def demoConstants_def createDefaultLibraryHeaders_def)

end
